(* ===== verification/BE_Prelude.thy ===== *)
theory BE_Prelude
  imports Main "HOL-Library.Word"
begin

text \<open>
  Shared vocabulary of the bulk_extractor binding model
  (\<^verbatim>\<open>src/python/module/modbulk_extractor.py\<close>): the C types of the
  \<^verbatim>\<open>ctypes\<close> declarations as fixed-width words, the errors a call of the binding
  can end in (Python exceptions and undefined behaviour at the native boundary), the
  collection \<open>be_simps\<close> of rewrite rules the component theories share, and generic
  lemmas on words and lists used by several components.
\<close>

unbundle bit_operations_syntax

section \<open>C types of the ctypes declarations\<close>

text \<open>
  \<^verbatim>\<open>c_ubyte\<close> is a byte, \<^verbatim>\<open>c_int\<close> and \<^verbatim>\<open>c_uint\<close> are 32 bits, \<^verbatim>\<open>c_size_t\<close> and
  \<^verbatim>\<open>c_void_p\<close> are 64 bits (the LP64 ABI the library is built for). A Python
  \<^verbatim>\<open>bytes\<close> value is a list of bytes, a Python \<^verbatim>\<open>str\<close> is a list of Unicode code
  points.
\<close>

type_synonym byte = "8 word"
type_synonym bytes = "byte list"
type_synonym c_int = "32 word"
type_synonym c_uint = "32 word"
type_synonym c_size_t = "64 word"
type_synonym c_void_p = "64 word"
type_synonym codepoint = nat
type_synonym py_str = "codepoint list"

section \<open>Errors\<close>

text \<open>
  Every way a call of the binding can fail to return normally:
  \<^item> \<open>PyTypeError\<close>: \<^verbatim>\<open>from_buffer\<close> refused the buffer (not a writable buffer);
  \<^item> \<open>PyUnicodeEncodeError i\<close>: the \<^verbatim>\<open>'utf-8'\<close> codec met a lone surrogate at
    index \<open>i\<close> of the string;
  \<^item> \<open>UB_NullHandle\<close>: a native entry point was called with a NULL session;
  \<^item> \<open>UB_BadHandle\<close>: a native entry point was called with a pointer that is not an
    open session;
  \<^item> \<open>UB_DanglingCallback\<close>: the native engine called a callback thunk whose
    \<^verbatim>\<open>CFUNCTYPE\<close> object has been freed;
  \<^item> \<open>UB_OverRead\<close>: a \<^verbatim>\<open>c_char_p\<close> argument was read past its memory without
    finding a terminating zero byte.
  The \<open>UB_\<close> cases are undefined behaviour in the native process: the model stops
  there, since nothing about the rest of the run is determined.
\<close>

datatype be_error =
    PyTypeError
  | PyUnicodeEncodeError nat
  | UB_NullHandle
  | UB_BadHandle
  | UB_DanglingCallback
  | UB_OverRead

text \<open>The errors that are Python exceptions (a \<^verbatim>\<open>with\<close> statement's exit runs for them).\<close>

definition is_py_exc :: "be_error \<Rightarrow> bool" where
  "is_py_exc e = (case e of PyTypeError \<Rightarrow> True | PyUnicodeEncodeError _ \<Rightarrow> True | _ \<Rightarrow> False)"

text \<open>Rewrite rules shared by the component proofs.\<close>

named_theorems be_simps

section \<open>Generic lemmas\<close>

subsection \<open>Sum-typed results\<close>

text \<open>
  Sequencing of two fallible steps, written as the code writes it: the second runs
  only when the first returned normally.
\<close>

lemma sum_case_Inr_iff [be_simps]:
  "((case r of Inl e \<Rightarrow> Inl e | Inr x \<Rightarrow> f x) = Inr y) \<longleftrightarrow> (\<exists>x. r = Inr x \<and> f x = Inr y)"
  by (cases r) auto

lemma sum_case_Inl_iff [be_simps]:
  "((case r of Inl e \<Rightarrow> Inl e | Inr x \<Rightarrow> f x) = Inl e') \<longleftrightarrow>
     (r = Inl e' \<or> (\<exists>x. r = Inr x \<and> f x = Inl e'))"
  by (cases r) auto

subsection \<open>Zero-terminated reads\<close>

text \<open>
  A C string read stops at the first zero byte. The facts below relate the prefix it
  returns to an explicitly bounded read \<open>take n\<close>.
\<close>

lemma takeWhile_nz_take_eq:
  assumes "n \<le> length m" and "0 \<notin> set (take n m)" and "n < length m \<longrightarrow> m ! n = 0"
  shows "takeWhile (\<lambda>b. b \<noteq> (0::'a::zero)) m = take n m"
  using assms
proof (induction m arbitrary: n)
  case Nil
  then show ?case by simp
next
  case (Cons x xs)
  show ?case
  proof (cases n)
    case 0
    with Cons.prems show ?thesis by simp
  next
    case (Suc k)
    with Cons.prems have "x \<noteq> 0" and "k \<le> length xs" and "0 \<notin> set (take k xs)"
      and "k < length xs \<longrightarrow> xs ! k = 0"
      by auto
    with Cons.IH Suc show ?thesis by simp
  qed
qed

lemma takeWhile_nz_no_zero [be_simps]:
  "0 \<notin> set (takeWhile (\<lambda>b. b \<noteq> (0::'a::zero)) m)"
  by (induction m) auto

lemma takeWhile_nz_truncates:
  assumes "i < length m" and "m ! i = (0::'a::zero)"
  shows "length (takeWhile (\<lambda>b. b \<noteq> 0) m) \<le> i"
  using assms
proof (induction m arbitrary: i)
  case Nil
  then show ?case by simp
next
  case (Cons x xs)
  then show ?case by (cases i) auto
qed

subsection \<open>Positional digits\<close>

text \<open>Splitting a number into base-\<open>k\<close> digits of weight \<open>m\<close>, as multi-byte encodings do.\<close>

lemma mod_digit: "(x::nat) mod (m * k) = x div m mod k * m + x mod m"
  using mod_mult2_eq[of x m k] by (simp add: mult.commute)

lemma div_mod_digit: "x div (m * k) * (m * k) + x div m mod k * m + x mod m = (x::nat)"
  using div_mult_mod_eq[of x "m * k"] mod_digit[of x m k] by simp

lemma digit_div_mod:
  assumes "y < k" and "z < m"
  shows "(x * (m * k) + y * m + z) div m mod k = (y::nat)"
proof -
  have "x * (m * k) + y * m + z = (x * k + y) * m + z" by (simp add: algebra_simps)
  then have "(x * (m * k) + y * m + z) div m = x * k + y" using assms(2) by simp
  then show ?thesis using assms(1) by simp
qed

lemma low_digit: "z < m \<Longrightarrow> (a * m + z) mod m = (z::nat)"
  by simp

subsection \<open>Words\<close>

text \<open>
  Python's \<open>&\<close> on the \<^verbatim>\<open>int\<close> a \<^verbatim>\<open>c_int\<close> argument is converted to
  (\<open>sint\<close>), tested against a one-bit mask below the sign bit, reads that bit of the
  machine word.
\<close>

lemma sint_and_pow2_nz [be_simps]:
  fixes w :: "'a::len word"
  assumes "Suc n < LENGTH('a)"
  shows "(sint w AND 2 ^ n \<noteq> 0) \<longleftrightarrow> bit w n"
  using assms by (simp add: and_exp_eq_0_iff_not_bit bit_sint_iff)

end
