(* ===== verification/CTypes.thy ===== *)
theory CTypes
  imports BE_Prelude
begin

text \<open>
  The ctypes layer of the binding (lines 4--10 and 13 of
  \<^verbatim>\<open>modbulk_extractor.py\<close>): how the native engine's arguments reach Python when
  it calls the \<^verbatim>\<open>BeCallback\<close> thunk, how the Python result goes back as a
  \<^verbatim>\<open>c_int\<close>, how the \<^verbatim>\<open>c_void_p\<close> session pointer crosses the boundary, and
  how an integer argument of a foreign function without \<^verbatim>\<open>argtypes\<close> is passed.
  Each conversion is the one CPython's ctypes performs.
\<close>

section \<open>Pointers to character data\<close>

text \<open>
  A \<^verbatim>\<open>char *\<close> the engine passes is either NULL or points into memory; the model
  records the bytes readable from the pointer onward (\<open>CMem m\<close>). The engine's
  \<open>feature\<close> and \<open>context\<close> spans are such pointers with a separate length.
\<close>

datatype cbuf = CNull | CMem bytes

text \<open>
  ctypes converts a \<^verbatim>\<open>c_char_p\<close> callback argument with \<^verbatim>\<open>PyBytes_FromString\<close>:
  NULL becomes \<^verbatim>\<open>None\<close>, otherwise the bytes up to (excluding) the first zero byte.
  If the readable memory holds no zero byte, the read runs past it.
\<close>

definition c_char_p_get :: "cbuf \<Rightarrow> be_error + bytes option" where
  "c_char_p_get p =
     (case p of
        CNull \<Rightarrow> Inr None
      | CMem m \<Rightarrow> (if 0 \<in> set m then Inr (Some (takeWhile (\<lambda>b. b \<noteq> 0) m)) else Inl UB_OverRead))"

section \<open>Integers\<close>

text \<open>
  A \<^verbatim>\<open>c_int\<close> argument arrives as the Python \<^verbatim>\<open>int\<close> of its two's-complement
  reading, a \<^verbatim>\<open>c_uint\<close> or \<^verbatim>\<open>c_size_t\<close> argument as its unsigned reading. The
  \<^verbatim>\<open>int\<close> a callback returns is stored into the \<^verbatim>\<open>c_int\<close> result slot with
  truncation to 32 bits and no overflow check.
\<close>

definition c_int_get :: "c_int \<Rightarrow> int" where
  "c_int_get w = sint w"

definition c_uint_get :: "'a::len word \<Rightarrow> int" where
  "c_uint_get w = uint w"

definition c_int_set :: "int \<Rightarrow> c_int" where
  "c_int_set i = word_of_int i"

text \<open>
  \<^verbatim>\<open>restype = c_void_p\<close> turns the returned pointer into \<^verbatim>\<open>None\<close> when it is NULL
  and into an \<^verbatim>\<open>int\<close> otherwise; \<^verbatim>\<open>argtypes = [c_void_p, ...]\<close> turns
  \<^verbatim>\<open>None\<close> back into NULL.
\<close>

definition c_void_p_result :: "c_void_p \<Rightarrow> c_void_p option" where
  "c_void_p_result p = (if p = 0 then None else Some p)"

definition c_void_p_arg :: "c_void_p option \<Rightarrow> c_void_p" where
  "c_void_p_arg h = (case h of None \<Rightarrow> 0 | Some p \<Rightarrow> p)"

text \<open>
  A foreign function without \<^verbatim>\<open>argtypes\<close> (\<^verbatim>\<open>bulk_extractor_close\<close>) receives a
  Python \<^verbatim>\<open>int\<close> argument as a C \<^verbatim>\<open>int\<close>: ctypes keeps its low 32 bits, and
  libffi widens that \<^verbatim>\<open>int\<close> to the 64-bit argument register with sign extension.
  The pointer the native side sees is therefore the sign extension of the low 32 bits
  of the handle.
\<close>

definition int_arg_as_ptr :: "c_void_p \<Rightarrow> c_void_p" where
  "int_arg_as_ptr h = scast (ucast h :: c_int)"

section \<open>The callback thunk\<close>

text \<open>
  The arguments the engine passes to the callback, in the order of the
  \<^verbatim>\<open>BeCallback\<close> prototype (line 5): flag, auxiliary count, recorder name,
  forensic path, feature pointer and length, context pointer and length.
\<close>

record raw_event =
  ev_flag :: c_int
  ev_arg :: c_uint
  ev_name :: cbuf
  ev_pos :: cbuf
  ev_feature :: cbuf
  ev_feature_len :: c_size_t
  ev_context :: cbuf
  ev_context_len :: c_size_t

text \<open>The same eight arguments after conversion to Python values.\<close>

record py_args =
  pa_flag :: int
  pa_arg :: int
  pa_name :: "bytes option"
  pa_pos :: "bytes option"
  pa_feature :: "bytes option"
  pa_feature_len :: int
  pa_context :: "bytes option"
  pa_context_len :: int

text \<open>
  What a call of a Python callable ends with: it returns an \<^verbatim>\<open>int\<close> (a
  \<^verbatim>\<open>bool\<close> is one), it returns another object (\<^verbatim>\<open>None\<close>, a \<^verbatim>\<open>float\<close>, a
  \<^verbatim>\<open>str\<close>, ...), or it raises.
\<close>

datatype py_result = PyReturn int | PyReturnOther | PyRaise

text \<open>
  A Python callable of the callback's arity, with the side effects it may have made
  explicit as a state \<open>'s\<close> it reads and returns (the state reached when it
  raises, if it raises).
\<close>

type_synonym 's pyfun = "py_args \<Rightarrow> 's \<Rightarrow> py_result \<times> 's"

definition callback_args :: "raw_event \<Rightarrow> be_error + py_args" where
  "callback_args r =
     (case c_char_p_get (ev_name r) of Inl e \<Rightarrow> Inl e | Inr nm \<Rightarrow>
      (case c_char_p_get (ev_pos r) of Inl e \<Rightarrow> Inl e | Inr ps \<Rightarrow>
       (case c_char_p_get (ev_feature r) of Inl e \<Rightarrow> Inl e | Inr ft \<Rightarrow>
        (case c_char_p_get (ev_context r) of Inl e \<Rightarrow> Inl e | Inr cx \<Rightarrow>
          Inr \<lparr>pa_flag = c_int_get (ev_flag r), pa_arg = c_uint_get (ev_arg r),
               pa_name = nm, pa_pos = ps,
               pa_feature = ft, pa_feature_len = c_uint_get (ev_feature_len r),
               pa_context = cx, pa_context_len = c_uint_get (ev_context_len r)\<rparr>))))"

text \<open>
  How the thunk of the \<^verbatim>\<open>c_int\<close> restype (line 5) stores the callable's result
  into the result slot \<open>u\<close> the native caller reads. An \<^verbatim>\<open>int\<close> is stored modulo
  \<open>2^32\<close>. When the callable raises, or returns an object the \<^verbatim>\<open>c_int\<close>
  conversion refuses, ctypes reports the exception as unraisable (``Exception ignored
  on calling/converting result of ctypes callback function'') and writes nothing: the
  caller reads whatever the slot held.
\<close>

definition store_result :: "py_result \<Rightarrow> c_int \<Rightarrow> c_int" where
  "store_result v u = (case v of PyReturn i \<Rightarrow> c_int_set i | PyReturnOther \<Rightarrow> u | PyRaise \<Rightarrow> u)"

text \<open>
  One call of the \<^verbatim>\<open>CFUNCTYPE\<close> thunk \<^verbatim>\<open>BeCallback(cb)\<close> (line 13): convert the
  arguments, run the Python callable, store its result into the \<^verbatim>\<open>c_int\<close> slot,
  whose previous content is \<open>u\<close>. No Python exception crosses back into the engine.
\<close>

definition thunk_call ::
  "'s pyfun \<Rightarrow> c_int \<Rightarrow> raw_event \<Rightarrow> 's \<Rightarrow> be_error + (c_int \<times> 's)" where
  "thunk_call f u r s =
     (case callback_args r of
        Inl e \<Rightarrow> Inl e
      | Inr a \<Rightarrow> (case f a s of (v, s') \<Rightarrow> Inr (store_result v u, s')))"

section \<open>Properties of the conversions\<close>

subsection \<open>Character pointers\<close>

lemma c_char_p_get_CNull [simp, be_simps]: "c_char_p_get CNull = Inr None"
  by (simp add: c_char_p_get_def)

text \<open>
  C21. When the memory behind a feature or context pointer holds exactly \<open>len\<close>
  non-zero bytes followed by a zero byte, the Python handler receives exactly those
  \<open>len\<close> bytes.
\<close>

lemma c_char_p_get_bounded:
  assumes "len < length m" and "0 \<notin> set (take len m)" and "m ! len = 0"
  shows "c_char_p_get (CMem m) = Inr (Some (take len m))"
proof -
  have "0 \<in> set m" using assms(1,3) by (metis nth_mem)
  moreover have "takeWhile (\<lambda>b. b \<noteq> 0) m = take len m"
    using assms by (intro takeWhile_nz_take_eq) auto
  ultimately show ?thesis by (simp add: c_char_p_get_def)
qed

text \<open>
  C22. A span of \<open>len\<close> bytes with a zero byte at some index \<open>i < len\<close> reaches Python
  truncated: the bytes object has fewer than \<open>len\<close> bytes. The length argument the
  engine passes alongside (\<open>feature_len\<close>, \<open>context_len\<close>) is never used to bound
  the read.
\<close>

lemma c_char_p_get_truncates:
  assumes "i < len" and "len \<le> length m" and "m ! i = 0"
  shows "\<exists>bs. c_char_p_get (CMem m) = Inr (Some bs) \<and> length bs < len"
proof -
  have i: "i < length m" using assms by simp
  then have "0 \<in> set m" using assms(3) by (metis nth_mem)
  moreover have "length (takeWhile (\<lambda>b. b \<noteq> 0) m) \<le> i"
    using i assms(3) by (rule takeWhile_nz_truncates)
  ultimately show ?thesis using assms(1) by (simp add: c_char_p_get_def)
qed

subsection \<open>Integers\<close>

lemma c_int_set_small [simp, be_simps]:
  "c_int_set 0 = 0" "c_int_set (-1) = -1"
  by (simp_all add: c_int_set_def)

lemma c_void_p_arg_result [simp, be_simps]: "c_void_p_arg (c_void_p_result p) = p"
  by (simp add: c_void_p_arg_def c_void_p_result_def)

lemma c_void_p_result_arg:
  "h \<noteq> Some 0 \<Longrightarrow> c_void_p_result (c_void_p_arg h) = h"
  by (cases h) (auto simp: c_void_p_arg_def c_void_p_result_def)

lemma int_arg_as_ptr_signed_take_bit: "int_arg_as_ptr h = signed_take_bit 31 h"
  unfolding int_arg_as_ptr_def by (rule bit_word_eqI) (auto simp: bit_simps)

lemma int_arg_as_ptr_small:
  assumes "unat h < 2 ^ 31"
  shows "int_arg_as_ptr h = h"
proof -
  from assms have tk: "take_bit 31 h = h"
    by (metis take_bit_nat_eq_self_iff unsigned_take_bit_eq word_eq_iff_unsigned)
  then have "\<not> bit h 31"
    by (metis bit_take_bit_iff less_irrefl)
  then show ?thesis
    by (simp add: int_arg_as_ptr_signed_take_bit signed_take_bit_eq_if_positive tk)
qed

text \<open>
  Above \<open>2^31\<close> and below \<open>2^63\<close> the sign-extended low half is never the
  pointer itself: bit 31 set makes the result negative, bit 31 clear makes it small.
\<close>

lemma int_arg_as_ptr_high:
  assumes "2 ^ 31 \<le> unat h" and "unat h < 2 ^ 63"
  shows "int_arg_as_ptr h \<noteq> h"
proof
  assume eq: "int_arg_as_ptr h = h"
  show False
  proof (cases "bit h 31")
    case True
    then have "bit (int_arg_as_ptr h) 63"
      by (simp add: int_arg_as_ptr_signed_take_bit bit_signed_take_bit_iff)
    then have "bit (unat h) 63" using eq by (simp add: bit_unsigned_iff)
    moreover have "unat h div 2 ^ 63 = 0" using assms(2) by simp
    ultimately show False by (simp add: bit_nat_def)
  next
    case False
    then have "int_arg_as_ptr h = take_bit 31 h"
      by (simp add: int_arg_as_ptr_signed_take_bit signed_take_bit_eq_if_positive)
    then have "unat h = take_bit 31 (unat h)" using eq by (metis unsigned_take_bit_eq)
    then have "unat h < 2 ^ 31" by (metis take_bit_nat_less_exp)
    with assms(1) show False by simp
  qed
qed

subsection \<open>The thunk\<close>

lemma callback_args_Inr:
  assumes "c_char_p_get (ev_name r) = Inr nm" and "c_char_p_get (ev_pos r) = Inr ps"
    and "c_char_p_get (ev_feature r) = Inr ft" and "c_char_p_get (ev_context r) = Inr cx"
  shows "callback_args r =
     Inr \<lparr>pa_flag = sint (ev_flag r), pa_arg = uint (ev_arg r),
          pa_name = nm, pa_pos = ps,
          pa_feature = ft, pa_feature_len = uint (ev_feature_len r),
          pa_context = cx, pa_context_len = uint (ev_context_len r)\<rparr>"
  using assms by (simp add: callback_args_def c_int_get_def c_uint_get_def)

lemma store_result_PyReturn [simp, be_simps]: "store_result (PyReturn i) u = c_int_set i"
  by (simp add: store_result_def)

lemma store_result_unwritten [simp, be_simps]:
  "store_result PyReturnOther u = u" "store_result PyRaise u = u"
  by (simp_all add: store_result_def)

lemma thunk_call_Inr [be_simps]:
  "callback_args r = Inr a \<Longrightarrow>
   thunk_call f u r s = Inr (store_result (fst (f a s)) u, snd (f a s))"
  by (simp add: thunk_call_def split: prod.split)

lemma thunk_call_Inl [be_simps]:
  "callback_args r = Inl e \<Longrightarrow> thunk_call f u r s = Inl e"
  by (simp add: thunk_call_def)

subsection \<open>Witnesses\<close>

lemma c_char_p_get_bounded_witness:
  "(2::nat) < length [65, 66, 0 :: byte] \<and> 0 \<notin> set (take 2 [65, 66, 0 :: byte]) \<and>
   [65, 66, 0 :: byte] ! 2 = 0 \<and>
   c_char_p_get (CMem [65, 66, 0]) = Inr (Some (take 2 [65, 66, 0]))"
  using c_char_p_get_bounded[of 2 "[65, 66, 0]"] by simp

lemma c_char_p_get_truncates_witness:
  "(1::nat) < 3 \<and> 3 \<le> length [65, 0, 66, 0 :: byte] \<and> [65, 0, 66, 0 :: byte] ! 1 = 0 \<and>
   (\<exists>bs. c_char_p_get (CMem [65, 0, 66, 0]) = Inr (Some bs) \<and> length bs < 3)"
  using c_char_p_get_truncates[of 1 3 "[65, 0, 66, 0]"] by simp

end
