(* ===== verification/Dispatch.thy ===== *)
theory Dispatch
  imports CTypes
begin

text \<open>
  The event demultiplexer, \<^verbatim>\<open>BulkExtractor.wrap_callback\<close> and \<^verbatim>\<open>_noop_cb\<close>
  (lines 23--27 and 37--47 of \<^verbatim>\<open>modbulk_extractor.py\<close>), and the abstract
  specification it implements: the spec's three typed event records and a dispatcher
  that hands one event to exactly one handler. The refinement lemma says how the
  flag-testing code relates to that specification; the lemmas after it give the
  behaviour on every branch.
\<close>

section \<open>The code\<close>

definition FLAG_FEATURE :: int where "FLAG_FEATURE = 1"
definition FLAG_HISTOGRAM :: int where "FLAG_HISTOGRAM = 2"
definition FLAG_CARVE :: int where "FLAG_CARVE = 4"

text \<open>
  The three handler shapes: \<open>feature_cb(recorder_name, pos, feature, context)\<close>,
  \<open>histogram_cb(recorder_name, pos, feature, count)\<close> and
  \<open>carve_cb(recorder_name, pos, carved_filename, carved_data)\<close>, each with its
  side effects as a state \<open>'s\<close>.
\<close>

type_synonym 's feature_cb =
  "bytes option \<Rightarrow> bytes option \<Rightarrow> bytes option \<Rightarrow> bytes option \<Rightarrow> 's \<Rightarrow> py_result \<times> 's"
type_synonym 's histogram_cb =
  "bytes option \<Rightarrow> bytes option \<Rightarrow> bytes option \<Rightarrow> int \<Rightarrow> 's \<Rightarrow> py_result \<times> 's"
type_synonym 's carve_cb = "'s feature_cb"

text \<open>\<^verbatim>\<open>def _noop_cb(*args): return 0\<close>: no effect, result 0.\<close>

definition noop_cb :: "'a \<Rightarrow> 'b \<Rightarrow> 'c \<Rightarrow> 'd \<Rightarrow> 's \<Rightarrow> py_result \<times> 's" where
  "noop_cb a b c d s = (PyReturn 0, s)"

text \<open>
  The closure \<^verbatim>\<open>callback\<close> built by \<^verbatim>\<open>wrap_callback\<close>: the \<^verbatim>\<open>if\<close>/\<^verbatim>\<open>elif\<close>
  chain tests the flag bits in the source's order with Python's \<open>&\<close> on the
  \<^verbatim>\<open>int\<close> flag, and falls through to \<open>-1\<close>. The \<open>feature_len\<close> and
  \<open>context_len\<close> arguments are ignored, as in the source.
\<close>

definition wrap_callback ::
  "'s feature_cb \<Rightarrow> 's histogram_cb \<Rightarrow> 's carve_cb \<Rightarrow> 's pyfun" where
  "wrap_callback feature_cb histogram_cb carve_cb a s =
     (if pa_flag a AND FLAG_FEATURE \<noteq> 0 then
        feature_cb (pa_name a) (pa_pos a) (pa_feature a) (pa_context a) s
      else if pa_flag a AND FLAG_HISTOGRAM \<noteq> 0 then
        histogram_cb (pa_name a) (pa_pos a) (pa_feature a) (pa_arg a) s
      else if pa_flag a AND FLAG_CARVE \<noteq> 0 then
        carve_cb (pa_name a) (pa_pos a) (pa_context a) (pa_feature a) s
      else (PyReturn (-1), s))"

section \<open>The specification\<close>

text \<open>
  The spec's event records (section 3): \<open>FeatureEvent\<close> with recorder name,
  position, feature and context; \<open>HistogramEvent\<close> with a count; \<open>CarveEvent\<close>
  with the carved file's name and data.
\<close>

datatype event =
    FeatureEvent "bytes option" "bytes option" "bytes option" "bytes option"
  | HistogramEvent "bytes option" "bytes option" "bytes option" int
  | CarveEvent "bytes option" "bytes option" "bytes option" "bytes option"

datatype event_kind = KFeature | KHistogram | KCarve

text \<open>
  The spec's classification (sections 4.2, 6 and 8): the three flag constants are
  exclusive cases, every other flag value is unhandled.
\<close>

definition spec_kind :: "int \<Rightarrow> event_kind option" where
  "spec_kind fl =
     (if fl = FLAG_FEATURE then Some KFeature
      else if fl = FLAG_HISTOGRAM then Some KHistogram
      else if fl = FLAG_CARVE then Some KCarve
      else None)"

text \<open>The classification the code's \<^verbatim>\<open>if\<close>/\<^verbatim>\<open>elif\<close> chain computes.\<close>

definition code_kind :: "int \<Rightarrow> event_kind option" where
  "code_kind fl =
     (if fl AND FLAG_FEATURE \<noteq> 0 then Some KFeature
      else if fl AND FLAG_HISTOGRAM \<noteq> 0 then Some KHistogram
      else if fl AND FLAG_CARVE \<noteq> 0 then Some KCarve
      else None)"

text \<open>
  The spec's re-shaping of the raw arguments (section 4.2), with the CARVE inversion:
  the context slot carries the file name, the feature slot the carved data.
\<close>

definition make_event :: "event_kind \<Rightarrow> py_args \<Rightarrow> event" where
  "make_event k a =
     (case k of
        KFeature \<Rightarrow> FeatureEvent (pa_name a) (pa_pos a) (pa_feature a) (pa_context a)
      | KHistogram \<Rightarrow> HistogramEvent (pa_name a) (pa_pos a) (pa_feature a) (pa_arg a)
      | KCarve \<Rightarrow> CarveEvent (pa_name a) (pa_pos a) (pa_context a) (pa_feature a))"

text \<open>The spec's dispatcher: each event goes to the one handler of its kind.\<close>

fun dispatch_event ::
  "'s feature_cb \<Rightarrow> 's histogram_cb \<Rightarrow> 's carve_cb \<Rightarrow> event \<Rightarrow> 's \<Rightarrow> py_result \<times> 's" where
  "dispatch_event f h c (FeatureEvent n p ft cx) s = f n p ft cx s"
| "dispatch_event f h c (HistogramEvent n p ft k) s = h n p ft k s"
| "dispatch_event f h c (CarveEvent n p fn d) s = c n p fn d s"

text \<open>The adapter the spec describes: classify, re-shape, dispatch, or \<open>-1\<close>.\<close>

definition spec_callback ::
  "'s feature_cb \<Rightarrow> 's histogram_cb \<Rightarrow> 's carve_cb \<Rightarrow> 's pyfun" where
  "spec_callback f h c a s =
     (case spec_kind (pa_flag a) of
        None \<Rightarrow> (PyReturn (-1), s)
      | Some k \<Rightarrow> dispatch_event f h c (make_event k a) s)"

section \<open>Properties\<close>

lemmas flag_defs = FLAG_FEATURE_def FLAG_HISTOGRAM_def FLAG_CARVE_def

subsection \<open>Flag tests as bit tests\<close>

text \<open>
  Python's \<open>flag & FLAG_x\<close> on an \<^verbatim>\<open>int\<close> is non-zero exactly when the flag's
  bit is set, negative flags included (Python's \<open>&\<close> works on the infinite
  two's-complement expansion, as HOL's \<open>AND\<close> on \<open>int\<close> does).
\<close>

lemma int_and_flag_bits [be_simps]:
  "((fl::int) AND FLAG_FEATURE \<noteq> 0) = bit fl 0"
  "(fl AND FLAG_HISTOGRAM \<noteq> 0) = bit fl 1"
  "(fl AND FLAG_CARVE \<noteq> 0) = bit fl 2"
  using and_exp_eq_0_iff_not_bit[of fl 0] and_exp_eq_0_iff_not_bit[of fl 1]
    and_exp_eq_0_iff_not_bit[of fl 2]
  by (simp_all add: flag_defs)

lemma code_kind_bits:
  "code_kind fl =
     (if bit fl 0 then Some KFeature else if bit fl 1 then Some KHistogram
      else if bit fl 2 then Some KCarve else None)"
  by (simp add: code_kind_def int_and_flag_bits)

subsection \<open>Refinement\<close>

text \<open>
  The closure built by \<^verbatim>\<open>wrap_callback\<close> is the spec's adapter over the code's
  classification: classify the flag, re-shape the arguments into one typed event, hand
  it to the one handler of its kind; \<open>-1\<close> with no effect when no bit matches.
\<close>

lemma wrap_callback_refines:
  "wrap_callback f h c a s =
     (case code_kind (pa_flag a) of
        None \<Rightarrow> (PyReturn (-1), s)
      | Some k \<Rightarrow> dispatch_event f h c (make_event k a) s)"
  by (simp add: wrap_callback_def code_kind_def make_event_def)

text \<open>On the three flag constants the code's classification is the spec's.\<close>

lemma code_kind_spec: "spec_kind fl = Some k \<Longrightarrow> code_kind fl = Some k"
  by (auto simp: spec_kind_def code_kind_def flag_defs split: if_splits)

text \<open>
  C1. For every flag value the spec classifies (FEATURE, HISTOGRAM, CARVE), the
  closure built by \<^verbatim>\<open>wrap_callback\<close> behaves as the spec's adapter: it invokes
  exactly the handler of that kind, once, with the fields mapped as section 4.2 says,
  and returns that handler's status.
\<close>

theorem wrap_callback_spec:
  assumes "spec_kind (pa_flag a) = Some k"
  shows "wrap_callback f h c a s = spec_callback f h c a s"
  using assms code_kind_spec[OF assms]
  by (simp add: wrap_callback_refines spec_callback_def)

subsection \<open>Each branch\<close>

lemma wrap_callback_feature:
  "bit (pa_flag a) 0 \<Longrightarrow>
   wrap_callback f h c a s = f (pa_name a) (pa_pos a) (pa_feature a) (pa_context a) s"
  by (simp add: wrap_callback_def int_and_flag_bits)

text \<open>
  C25. HISTOGRAM (and not FEATURE): the histogram handler gets the auxiliary
  argument as its count.
\<close>

theorem wrap_callback_histogram:
  "\<not> bit (pa_flag a) 0 \<Longrightarrow> bit (pa_flag a) 1 \<Longrightarrow>
   wrap_callback f h c a s = h (pa_name a) (pa_pos a) (pa_feature a) (pa_arg a) s"
  by (simp add: wrap_callback_def int_and_flag_bits)

text \<open>
  C6. The CARVE branch passes the context slot as the carved file name and the feature slot
  as the carved data: the inversion section 4.2 requires.
\<close>

theorem wrap_callback_carve:
  "\<not> bit (pa_flag a) 0 \<Longrightarrow> \<not> bit (pa_flag a) 1 \<Longrightarrow> bit (pa_flag a) 2 \<Longrightarrow>
   wrap_callback f h c a s = c (pa_name a) (pa_pos a) (pa_context a) (pa_feature a) s"
  by (simp add: wrap_callback_def int_and_flag_bits)

text \<open>
  C4. A flag with none of the three bits: the closure returns \<open>-1\<close>, no handler
  runs, the state is unchanged.
\<close>

theorem wrap_callback_unhandled:
  "\<not> bit (pa_flag a) 0 \<Longrightarrow> \<not> bit (pa_flag a) 1 \<Longrightarrow> \<not> bit (pa_flag a) 2 \<Longrightarrow>
   wrap_callback f h c a s = (PyReturn (-1), s)"
  by (simp add: wrap_callback_def int_and_flag_bits)

text \<open>
  C7. Defaults: a closure built with only a feature handler answers every histogram and
  carve event with 0 and leaves the state as it was.
\<close>

theorem wrap_callback_noop_defaults:
  "\<not> bit (pa_flag a) 0 \<Longrightarrow> bit (pa_flag a) 1 \<or> bit (pa_flag a) 2 \<Longrightarrow>
   wrap_callback f noop_cb noop_cb a s = (PyReturn 0, s)"
  by (auto simp: wrap_callback_def int_and_flag_bits noop_cb_def)

text \<open>With all three defaults the closure never changes the state.\<close>

lemma wrap_callback_all_noop:
  "snd (wrap_callback noop_cb noop_cb noop_cb a s) = s"
  by (simp add: wrap_callback_def noop_cb_def)

text \<open>
  C5. The code treats the flag as a bit mask, the spec as one of three exclusive
  values. For every flag other than the three constants with one of the low three bits
  set (several bits, or a negative flag), the code calls a handler, chosen by bit
  priority (bit 0, then bit 1, then bit 2), while the spec (section 8) answers \<open>-1\<close>
  and calls no handler.
\<close>

theorem multi_bit_flag_divergence:
  assumes "pa_flag a \<notin> {FLAG_FEATURE, FLAG_HISTOGRAM, FLAG_CARVE}"
    and "bit (pa_flag a) 0 \<or> bit (pa_flag a) 1 \<or> bit (pa_flag a) 2"
  shows "wrap_callback f h c a s =
           dispatch_event f h c
             (make_event (if bit (pa_flag a) 0 then KFeature
                          else if bit (pa_flag a) 1 then KHistogram else KCarve) a) s \<and>
         spec_callback f h c a s = (PyReturn (-1), s)"
proof -
  have "spec_kind (pa_flag a) = None" using assms(1) by (simp add: spec_kind_def)
  moreover have "code_kind (pa_flag a) =
      Some (if bit (pa_flag a) 0 then KFeature
            else if bit (pa_flag a) 1 then KHistogram else KCarve)"
    using assms(2) by (auto simp: code_kind_bits)
  ultimately show ?thesis by (simp add: wrap_callback_refines spec_callback_def)
qed

subsection \<open>Witnesses\<close>

text \<open>A sample argument tuple, flag and fields as given.\<close>

lemma wrap_callback_spec_witness:
  "spec_kind 4 = Some KCarve \<and>
   wrap_callback noop_cb noop_cb (\<lambda>n p fn d s. (PyReturn 7, fn # s))
     \<lparr>pa_flag = 4, pa_arg = 0, pa_name = None, pa_pos = None, pa_feature = Some [1],
      pa_feature_len = 1, pa_context = Some [2], pa_context_len = 1\<rparr> [] =
   spec_callback noop_cb noop_cb (\<lambda>n p fn d s. (PyReturn 7, fn # s))
     \<lparr>pa_flag = 4, pa_arg = 0, pa_name = None, pa_pos = None, pa_feature = Some [1],
      pa_feature_len = 1, pa_context = Some [2], pa_context_len = 1\<rparr> []"
proof -
  let ?a = "\<lparr>pa_flag = 4, pa_arg = 0, pa_name = None, pa_pos = None, pa_feature = Some [1],
      pa_feature_len = 1, pa_context = Some [2], pa_context_len = 1\<rparr>"
  have k: "spec_kind (pa_flag ?a) = Some KCarve" by (simp add: spec_kind_def flag_defs)
  have "wrap_callback noop_cb noop_cb (\<lambda>n p fn d s. (PyReturn 7, fn # s)) ?a [] =
        spec_callback noop_cb noop_cb (\<lambda>n p fn d s. (PyReturn 7, fn # s)) ?a []"
    by (rule wrap_callback_spec[OF k])
  with k show ?thesis by simp
qed

lemma wrap_callback_histogram_witness:
  "\<not> bit (2::int) 0 \<and> bit (2::int) 1 \<and>
   wrap_callback noop_cb (\<lambda>n p ft k s. (PyReturn 0, k # s)) noop_cb
     \<lparr>pa_flag = 2, pa_arg = 5, pa_name = None, pa_pos = None, pa_feature = Some [1],
      pa_feature_len = 1, pa_context = None, pa_context_len = 0\<rparr> [] = (PyReturn 0, [5])"
  using wrap_callback_histogram[of "\<lparr>pa_flag = 2, pa_arg = 5, pa_name = None, pa_pos = None,
      pa_feature = Some [1], pa_feature_len = 1, pa_context = None, pa_context_len = 0\<rparr>"
      noop_cb "\<lambda>n p ft k s. (PyReturn 0, k # s)" noop_cb "[]"]
  by simp

lemma wrap_callback_carve_witness:
  "\<not> bit (4::int) 0 \<and> \<not> bit (4::int) 1 \<and> bit (4::int) 2 \<and>
   wrap_callback noop_cb noop_cb (\<lambda>n p fn d s. (PyReturn 0, (fn, d) # s))
     \<lparr>pa_flag = 4, pa_arg = 0, pa_name = None, pa_pos = None, pa_feature = Some [1],
      pa_feature_len = 1, pa_context = Some [2], pa_context_len = 1\<rparr> [] =
   (PyReturn 0, [(Some [2], Some [1])])"
  using wrap_callback_carve[of "\<lparr>pa_flag = 4, pa_arg = 0, pa_name = None, pa_pos = None,
      pa_feature = Some [1], pa_feature_len = 1, pa_context = Some [2], pa_context_len = 1\<rparr>"
      noop_cb noop_cb "\<lambda>n p fn d s. (PyReturn 0, (fn, d) # s)" "[]"]
  by simp

lemma wrap_callback_unhandled_witness:
  "\<not> bit (8::int) 0 \<and> \<not> bit (8::int) 1 \<and> \<not> bit (8::int) 2 \<and>
   wrap_callback (\<lambda>n p ft cx s. (PyReturn 0, Suc s)) noop_cb noop_cb
     \<lparr>pa_flag = 8, pa_arg = 0, pa_name = None, pa_pos = None, pa_feature = None,
      pa_feature_len = 0, pa_context = None, pa_context_len = 0\<rparr> (3::nat) = (PyReturn (-1), 3)"
  using wrap_callback_unhandled[of "\<lparr>pa_flag = 8, pa_arg = 0, pa_name = None, pa_pos = None,
      pa_feature = None, pa_feature_len = 0, pa_context = None, pa_context_len = 0\<rparr>"
      "\<lambda>n p ft cx s. (PyReturn 0, Suc s)" noop_cb noop_cb "3::nat"]
  by simp

lemma wrap_callback_noop_defaults_witness:
  "\<not> bit (2::int) 0 \<and> (bit (2::int) 1 \<or> bit (2::int) 2) \<and>
   wrap_callback (\<lambda>n p ft cx s. (PyReturn 0, Suc s)) noop_cb noop_cb
     \<lparr>pa_flag = 2, pa_arg = 9, pa_name = None, pa_pos = None, pa_feature = None,
      pa_feature_len = 0, pa_context = None, pa_context_len = 0\<rparr> (3::nat) = (PyReturn 0, 3)"
  using wrap_callback_noop_defaults[of "\<lparr>pa_flag = 2, pa_arg = 9, pa_name = None, pa_pos = None,
      pa_feature = None, pa_feature_len = 0, pa_context = None, pa_context_len = 0\<rparr>"
      "\<lambda>n p ft cx s. (PyReturn 0, Suc s)" "3::nat"]
  by simp

lemma multi_bit_flag_divergence_witness:
  "(3::int) \<notin> {FLAG_FEATURE, FLAG_HISTOGRAM, FLAG_CARVE} \<and>
   (bit (3::int) 0 \<or> bit (3::int) 1 \<or> bit (3::int) 2) \<and>
   wrap_callback (\<lambda>n p ft cx s. (PyReturn 0, Suc s)) noop_cb noop_cb
     \<lparr>pa_flag = 3, pa_arg = 0, pa_name = None, pa_pos = None, pa_feature = None,
      pa_feature_len = 0, pa_context = None, pa_context_len = 0\<rparr> (0::nat) = (PyReturn 0, 1) \<and>
   spec_callback (\<lambda>n p ft cx s. (PyReturn 0, Suc s)) noop_cb noop_cb
     \<lparr>pa_flag = 3, pa_arg = 0, pa_name = None, pa_pos = None, pa_feature = None,
      pa_feature_len = 0, pa_context = None, pa_context_len = 0\<rparr> 0 = (PyReturn (-1), 0)"
proof -
  let ?a = "\<lparr>pa_flag = 3, pa_arg = 0, pa_name = None, pa_pos = None, pa_feature = None,
      pa_feature_len = 0, pa_context = None, pa_context_len = 0\<rparr>"
  have n: "pa_flag ?a \<notin> {FLAG_FEATURE, FLAG_HISTOGRAM, FLAG_CARVE}" by (simp add: flag_defs)
  have b: "bit (pa_flag ?a) 0 \<or> bit (pa_flag ?a) 1 \<or> bit (pa_flag ?a) 2" by simp
  show ?thesis
    using n b multi_bit_flag_divergence[OF n b, of "\<lambda>n p ft cx s. (PyReturn 0, Suc s)" noop_cb
        noop_cb "0::nat"]
    by (simp add: make_event_def)
qed

end
