(* ===== verification/Utf8.thy ===== *)
theory Utf8
  imports BE_Prelude
begin

text \<open>
  The text path of the buffer marshalling: \<^verbatim>\<open>bytearray(buf, 'utf-8')\<close> (line 17 of
  \<^verbatim>\<open>modbulk_extractor.py\<close>) encodes a Python \<^verbatim>\<open>str\<close>, a sequence of code points
  below \<open>0x110000\<close>, with CPython's strict UTF-8 codec: one to four bytes per code
  point, and a \<^verbatim>\<open>UnicodeEncodeError\<close> at the first lone surrogate
  (\<open>0xD800\<close>--\<open>0xDFFF\<close>), which strict UTF-8 cannot represent. A strict decoder is
  the codec's inverse; the lemmas show the round trip, the length bounds and that ASCII
  text is passed through byte for byte.
\<close>

section \<open>Encoder\<close>

definition is_surrogate :: "codepoint \<Rightarrow> bool" where
  "is_surrogate c \<longleftrightarrow> 55296 \<le> c \<and> c \<le> 57343"

text \<open>Every Python \<^verbatim>\<open>str\<close> satisfies \<open>valid_str\<close>: its code points are below \<open>0x110000\<close>.\<close>

definition valid_str :: "py_str \<Rightarrow> bool" where
  "valid_str s \<longleftrightarrow> (\<forall>c \<in> set s. c < 1114112)"

text \<open>A byte of the output, given by its value below 256.\<close>

definition byte_of :: "nat \<Rightarrow> byte" where
  "byte_of n = of_nat n"

text \<open>The UTF-8 form of one code point that is not a surrogate.\<close>

definition utf8_char :: "codepoint \<Rightarrow> bytes" where
  "utf8_char c =
     (if c < 128 then [byte_of c]
      else if c < 2048 then [byte_of (192 + c div 64), byte_of (128 + c mod 64)]
      else if c < 65536 then
        [byte_of (224 + c div 4096), byte_of (128 + c div 64 mod 64), byte_of (128 + c mod 64)]
      else
        [byte_of (240 + c div 262144), byte_of (128 + c div 4096 mod 64),
         byte_of (128 + c div 64 mod 64), byte_of (128 + c mod 64)])"

text \<open>
  The strict encoder, left to right; \<open>i\<close> is the index of the current code point,
  reported in the error.
\<close>

fun utf8_encode_from :: "nat \<Rightarrow> py_str \<Rightarrow> be_error + bytes" where
  "utf8_encode_from i [] = Inr []"
| "utf8_encode_from i (c # cs) =
     (if is_surrogate c then Inl (PyUnicodeEncodeError i)
      else (case utf8_encode_from (Suc i) cs of
              Inl e \<Rightarrow> Inl e
            | Inr bs \<Rightarrow> Inr (utf8_char c @ bs)))"

definition utf8_encode :: "py_str \<Rightarrow> be_error + bytes" where
  "utf8_encode s = utf8_encode_from 0 s"

section \<open>Decoder\<close>

text \<open>
  A strict decoder: the lead byte gives the length, every following byte must be a
  continuation byte (\<open>0x80\<close>--\<open>0xBF\<close>), and the decoded value must be in the range
  of that length (no overlong forms), not a surrogate and below \<open>0x110000\<close>.
\<close>

definition is_cont :: "byte \<Rightarrow> bool" where
  "is_cont b \<longleftrightarrow> 128 \<le> unat b \<and> unat b < 192"

fun utf8_decode :: "bytes \<Rightarrow> py_str option" where
  "utf8_decode [] = Some []"
| "utf8_decode (b # bs) =
     (if unat b < 128 then map_option (Cons (unat b)) (utf8_decode bs)
      else if 192 \<le> unat b \<and> unat b < 224 then
        (case bs of
           b1 # r \<Rightarrow>
             (let c = (unat b - 192) * 64 + (unat b1 - 128) in
              if is_cont b1 \<and> 128 \<le> c then map_option (Cons c) (utf8_decode r) else None)
         | _ \<Rightarrow> None)
      else if 224 \<le> unat b \<and> unat b < 240 then
        (case bs of
           b1 # b2 # r \<Rightarrow>
             (let c = (unat b - 224) * 4096 + (unat b1 - 128) * 64 + (unat b2 - 128) in
              if is_cont b1 \<and> is_cont b2 \<and> 2048 \<le> c \<and> \<not> is_surrogate c
              then map_option (Cons c) (utf8_decode r) else None)
         | _ \<Rightarrow> None)
      else if 240 \<le> unat b \<and> unat b < 248 then
        (case bs of
           b1 # b2 # b3 # r \<Rightarrow>
             (let c = (unat b - 240) * 262144 + (unat b1 - 128) * 4096
                      + (unat b2 - 128) * 64 + (unat b3 - 128) in
              if is_cont b1 \<and> is_cont b2 \<and> is_cont b3 \<and> 65536 \<le> c \<and> c < 1114112
              then map_option (Cons c) (utf8_decode r) else None)
         | _ \<Rightarrow> None)
      else None)"

section \<open>Properties\<close>

lemma unat_byte_of [simp]: "n < 256 \<Longrightarrow> unat (byte_of n) = n"
  by (simp add: byte_of_def unat_of_nat)

text \<open>Decoding the UTF-8 form of one code point gives the code point back.\<close>

lemma utf8_decode_char:
  assumes "c < 1114112" and "\<not> is_surrogate c"
  shows "utf8_decode (utf8_char c @ r) = map_option (Cons c) (utf8_decode r)"
proof -
  have m: "c mod 64 < 64" "c div 64 mod 64 < 64" "c div 4096 mod 64 < 64" by simp_all
  consider "c < 128" | "128 \<le> c" "c < 2048" | "2048 \<le> c" "c < 65536" | "65536 \<le> c"
    by linarith
  then show ?thesis
  proof cases
    case 1
    then show ?thesis by (simp add: utf8_char_def)
  next
    case 2
    then have "c div 64 < 32" by auto
    moreover have "(c div 64) * 64 + c mod 64 = c" by simp
    ultimately show ?thesis using 2 m by (auto simp add: utf8_char_def is_cont_def Let_def)
  next
    case 3
    then have "c div 4096 < 16" by simp
    moreover have "(c div 4096) * 4096 + c div 64 mod 64 * 64 + c mod 64 = c"
      using div_mod_digit[of c 64 64] by simp
    ultimately show ?thesis using 3 m assms by (auto simp add: utf8_char_def is_cont_def Let_def)
  next
    case 4
    then have "c div 262144 < 5" using assms by simp
    moreover have "(c div 262144) * 262144 + c div 4096 mod 64 * 4096
        + c div 64 mod 64 * 64 + c mod 64 = c"
      using div_mod_digit[of c 4096 64] mod_digit[of c 64 64] by simp
    ultimately show ?thesis using 4 m assms by (auto simp add: utf8_char_def is_cont_def Let_def)
  qed
qed

lemma length_utf8_char: "1 \<le> length (utf8_char c) \<and> length (utf8_char c) \<le> 4"
  by (simp add: utf8_char_def)

text \<open>The encoder succeeds exactly on strings without surrogates, with the
  concatenation of the code points' UTF-8 forms.\<close>

lemma utf8_encode_from_Inr_iff:
  "utf8_encode_from i s = Inr bs \<longleftrightarrow>
     (\<forall>c \<in> set s. \<not> is_surrogate c) \<and> bs = concat (map utf8_char s)"
  by (induction i s arbitrary: bs rule: utf8_encode_from.induct)
     (auto simp: be_simps split: sum.splits)

lemma utf8_encode_Inr_iff:
  "utf8_encode s = Inr bs \<longleftrightarrow> (\<forall>c \<in> set s. \<not> is_surrogate c) \<and> bs = concat (map utf8_char s)"
  by (simp add: utf8_encode_def utf8_encode_from_Inr_iff)

lemma utf8_encode_from_surrogate:
  assumes "\<forall>c \<in> set xs. \<not> is_surrogate c" and "is_surrogate c"
  shows "utf8_encode_from i (xs @ c # ys) = Inl (PyUnicodeEncodeError (i + length xs))"
  using assms by (induction xs arbitrary: i) auto

text \<open>
  C18. Text with a lone surrogate raises \<^verbatim>\<open>UnicodeEncodeError\<close> before any native
  call; the error names the index of the first surrogate.
\<close>

lemma utf8_encode_surrogate:
  assumes "\<forall>c \<in> set xs. \<not> is_surrogate c" and "is_surrogate c"
  shows "utf8_encode (xs @ c # ys) = Inl (PyUnicodeEncodeError (length xs))"
  using utf8_encode_from_surrogate[OF assms, of 0] by (simp add: utf8_encode_def)

lemma utf8_decode_concat:
  "valid_str s \<Longrightarrow> \<forall>c \<in> set s. \<not> is_surrogate c \<Longrightarrow>
   utf8_decode (concat (map utf8_char s)) = Some s"
  by (induction s) (auto simp: valid_str_def utf8_decode_char)

text \<open>
  C17. Round trip: the strict UTF-8 decoder recovers every Python string the encoder
  accepts, so the text path loses no information.
\<close>

lemma utf8_roundtrip:
  assumes "valid_str s" and "utf8_encode s = Inr bs"
  shows "utf8_decode bs = Some s"
  using assms by (simp add: utf8_encode_Inr_iff utf8_decode_concat)

text \<open>Each code point takes one to four bytes.\<close>

lemma length_concat_utf8_char:
  "length s \<le> length (concat (map utf8_char s)) \<and>
   length (concat (map utf8_char s)) \<le> 4 * length s"
proof (induction s)
  case Nil
  then show ?case by simp
next
  case (Cons c s)
  with length_utf8_char[of c] show ?case by simp
qed

text \<open>C19. The encoded buffer has one to four bytes per code point.\<close>

lemma utf8_encode_length:
  assumes "utf8_encode s = Inr bs"
  shows "length s \<le> length bs \<and> length bs \<le> 4 * length s"
  using assms length_concat_utf8_char[of s] by (simp add: utf8_encode_Inr_iff)

text \<open>C20. ASCII text is passed to the engine byte for byte.\<close>

lemma utf8_encode_ascii:
  assumes "\<forall>c \<in> set s. c < 128"
  shows "utf8_encode s = Inr (map byte_of s)"
proof -
  have "concat (map utf8_char s) = map byte_of s"
    using assms by (induction s) (auto simp: utf8_char_def)
  moreover have "\<forall>c \<in> set s. \<not> is_surrogate c"
    using assms by (auto simp: is_surrogate_def)
  ultimately show ?thesis by (simp add: utf8_encode_Inr_iff)
qed

subsection \<open>The decoder accepts only canonical encodings\<close>

text \<open>
  Each branch of the decoder reproduces the bytes it consumed when the decoded code
  point is encoded again.
\<close>

lemma byte_of_unat [simp]: "byte_of (unat b) = b"
  by (simp add: byte_of_def)

lemma utf8_char_decoded_2:
  assumes "192 \<le> unat b" "unat b < 224" "is_cont b1"
    "128 \<le> (unat b - 192) * 64 + (unat b1 - 128)"
  shows "utf8_char ((unat b - 192) * 64 + (unat b1 - 128)) = [b, b1]"
proof -
  let ?c = "(unat b - 192) * 64 + (unat b1 - 128)"
  have y: "unat b1 - 128 < 64" using assms(3) unfolding is_cont_def by linarith
  have d: "?c div 64 = unat b - 192" and m: "?c mod 64 = unat b1 - 128"
    using y by simp_all
  have "?c < 2048" using assms(2) y by simp
  then show ?thesis using assms d m by (simp add: utf8_char_def is_cont_def)
qed
lemma utf8_char_decoded_3:
  assumes "224 \<le> unat b" "unat b < 240" "is_cont b1" "is_cont b2"
    "2048 \<le> (unat b - 224) * 4096 + (unat b1 - 128) * 64 + (unat b2 - 128)"
  shows "utf8_char ((unat b - 224) * 4096 + (unat b1 - 128) * 64 + (unat b2 - 128)) = [b, b1, b2]"
proof -
  let ?c = "(unat b - 224) * 4096 + (unat b1 - 128) * 64 + (unat b2 - 128)"
  have y1: "unat b1 - 128 < 64" and y2: "unat b2 - 128 < 64"
    using assms(3,4) unfolding is_cont_def by linarith+
  have d: "?c div 4096 = unat b - 224" using y1 y2 by simp
  have d2: "?c div 64 mod 64 = unat b1 - 128"
    using digit_div_mod[OF y1 y2, of "unat b - 224"] by simp
  have m: "?c mod 64 = unat b2 - 128"
    using low_digit[OF y2, of "(unat b - 224) * 64 + (unat b1 - 128)"] by (simp add: algebra_simps)
  have "?c < 65536" using assms(2) y1 y2 by simp
  then show ?thesis using assms d d2 m by (simp add: utf8_char_def is_cont_def)
qed
lemma utf8_char_decoded_4:
  assumes "240 \<le> unat b" "unat b < 248" "is_cont b1" "is_cont b2" "is_cont b3"
    "65536 \<le> (unat b - 240) * 262144 + (unat b1 - 128) * 4096 + (unat b2 - 128) * 64 + (unat b3 - 128)"
    "(unat b - 240) * 262144 + (unat b1 - 128) * 4096 + (unat b2 - 128) * 64 + (unat b3 - 128) < 1114112"
  shows "utf8_char ((unat b - 240) * 262144 + (unat b1 - 128) * 4096 + (unat b2 - 128) * 64
           + (unat b3 - 128)) = [b, b1, b2, b3]"
proof -
  let ?c = "(unat b - 240) * 262144 + (unat b1 - 128) * 4096 + (unat b2 - 128) * 64 + (unat b3 - 128)"
  have y1: "unat b1 - 128 < 64" and y2: "unat b2 - 128 < 64" and y3: "unat b3 - 128 < 64"
    using assms(3-5) unfolding is_cont_def by linarith+
  have d: "?c div 262144 = unat b - 240" using y1 y2 y3 by simp
  have z: "(unat b2 - 128) * 64 + (unat b3 - 128) < 4096" using y2 y3 by simp
  have d1: "?c div 4096 mod 64 = unat b1 - 128"
    using digit_div_mod[OF y1 z, of "unat b - 240"] by (simp add: add.assoc)
  have d2: "?c div 64 mod 64 = unat b2 - 128"
    using digit_div_mod[OF y2 y3, of "(unat b - 240) * 64 + (unat b1 - 128)"]
    by (simp add: algebra_simps)
  have m: "?c mod 64 = unat b3 - 128"
    using low_digit[OF y3, of "(unat b - 240) * 4096 + (unat b1 - 128) * 64 + (unat b2 - 128)"]
    by (simp add: algebra_simps)
  show ?thesis using assms d d1 d2 m by (simp add: utf8_char_def is_cont_def)
qed
lemma utf8_char_decoded_1: "unat b < 128 \<Longrightarrow> utf8_char (unat b) = [b]"
  by (simp add: utf8_char_def)

lemma utf8_decode_canonical_aux:
  "utf8_decode bs = Some s \<Longrightarrow>
   valid_str s \<and> (\<forall>c \<in> set s. \<not> is_surrogate c) \<and> concat (map utf8_char s) = bs"
proof (induction bs arbitrary: s rule: utf8_decode.induct)
  case 1
  then show ?case by (simp add: valid_str_def)
next
  case (2 b bs)
  show ?case
  proof (cases "unat b < 128")
    case True
    with "2.prems" obtain z where dz: "utf8_decode bs = Some z" and s: "s = unat b # z"
      by auto
    from "2.IH"(1)[OF True dz] True s show ?thesis
      by (simp add: valid_str_def is_surrogate_def utf8_char_decoded_1)
  next
    case c1: False
    show ?thesis
    proof (cases "192 \<le> unat b \<and> unat b < 224")
      case c2: True
      let ?c = "\<lambda>b1. (unat b - 192) * 64 + (unat b1 - 128)"
      from "2.prems" c1 c2 obtain b1 r z where bs: "bs = b1 # r" and k: "is_cont b1 \<and> 128 \<le> ?c b1"
        and dz: "utf8_decode r = Some z" and s: "s = ?c b1 # z"
        by (auto simp: Let_def split: list.splits if_splits)
      have IH: "valid_str z \<and> (\<forall>c \<in> set z. \<not> is_surrogate c) \<and> concat (map utf8_char z) = r"
        by (rule "2.IH"(2)[OF c1 c2 bs refl k dz])
      have "?c b1 < 2048" using c2 k unfolding is_cont_def by linarith
      moreover have "utf8_char (?c b1) = [b, b1]"
        using c2 k by (intro utf8_char_decoded_2) auto
      ultimately show ?thesis using IH s bs by (simp add: valid_str_def is_surrogate_def)
    next
      case c2: False
      show ?thesis
      proof (cases "224 \<le> unat b \<and> unat b < 240")
        case c3: True
        let ?c = "\<lambda>b1 b2. (unat b - 224) * 4096 + (unat b1 - 128) * 64 + (unat b2 - 128)"
        from "2.prems" c1 c2 c3 obtain b1 b2 r z where bs: "bs = b1 # b2 # r"
          and k: "is_cont b1 \<and> is_cont b2 \<and> 2048 \<le> ?c b1 b2 \<and> \<not> is_surrogate (?c b1 b2)"
          and dz: "utf8_decode r = Some z" and s: "s = ?c b1 b2 # z"
          by (auto simp: Let_def split: list.splits if_splits)
        have IH: "valid_str z \<and> (\<forall>c \<in> set z. \<not> is_surrogate c) \<and> concat (map utf8_char z) = r"
          by (rule "2.IH"(3)[OF c1 c2 c3 bs refl refl k dz])
        have "?c b1 b2 < 65536" using c3 k unfolding is_cont_def by linarith
        moreover have "utf8_char (?c b1 b2) = [b, b1, b2]"
          using c3 k by (intro utf8_char_decoded_3) auto
        ultimately show ?thesis using IH s bs k by (simp add: valid_str_def)
      next
        case c3: False
        let ?c = "\<lambda>b1 b2 b3. (unat b - 240) * 262144 + (unat b1 - 128) * 4096
                              + (unat b2 - 128) * 64 + (unat b3 - 128)"
        from "2.prems" c1 c2 c3 obtain b1 b2 b3 r z where c4: "240 \<le> unat b \<and> unat b < 248"
          and bs: "bs = b1 # b2 # b3 # r"
          and k: "is_cont b1 \<and> is_cont b2 \<and> is_cont b3 \<and> 65536 \<le> ?c b1 b2 b3 \<and> ?c b1 b2 b3 < 1114112"
          and dz: "utf8_decode r = Some z" and s: "s = ?c b1 b2 b3 # z"
          by (auto simp: Let_def split: list.splits if_splits)
        have IH: "valid_str z \<and> (\<forall>c \<in> set z. \<not> is_surrogate c) \<and> concat (map utf8_char z) = r"
          by (rule "2.IH"(4)[OF c1 c2 c3 c4 bs refl refl refl k dz])
        have "utf8_char (?c b1 b2 b3) = [b, b1, b2, b3]"
          using c4 k by (intro utf8_char_decoded_4) auto
        then show ?thesis using IH s bs k by (simp add: valid_str_def is_surrogate_def)
      qed
    qed
  qed
qed
text \<open>
  C26. The strict decoder accepts exactly canonical encodings: every byte string it
  decodes to a string is the encoder's output for that string, so no other byte
  string stands for the same text.
\<close>

theorem utf8_decode_canonical:
  assumes "utf8_decode bs = Some s"
  shows "utf8_encode s = Inr bs"
  using utf8_decode_canonical_aux[OF assms] by (simp add: utf8_encode_Inr_iff)

subsection \<open>Witnesses\<close>

lemma utf8_encode_hello: "utf8_encode [104, 233] = Inr [104, 195, 169]"
  by (simp add: utf8_encode_def utf8_char_def is_surrogate_def byte_of_def)

lemma utf8_roundtrip_witness:
  "valid_str [104, 233] \<and> utf8_encode [104, 233] = Inr [104, 195, 169] \<and>
   utf8_decode [104, 195, 169] = Some [104, 233]"
  using utf8_roundtrip[of "[104, 233]" "[104, 195, 169]"] utf8_encode_hello
  by (simp add: valid_str_def)

lemma utf8_encode_surrogate_witness:
  "\<not> is_surrogate 104 \<and> is_surrogate 55296 \<and>
   utf8_encode [104, 55296, 105] = Inl (PyUnicodeEncodeError 1)"
  using utf8_encode_surrogate[of "[104]" 55296 "[105]"] by (simp add: is_surrogate_def)

lemma utf8_encode_length_witness:
  "utf8_encode [104, 233] = Inr [104, 195, 169] \<and>
   length [104::nat, 233] \<le> length [104::byte, 195, 169] \<and>
   length [104::byte, 195, 169] \<le> 4 * length [104::nat, 233]"
  using utf8_encode_length[OF utf8_encode_hello] utf8_encode_hello by simp

lemma utf8_encode_ascii_witness:
  "(79::nat) < 128 \<and> (75::nat) < 128 \<and> utf8_encode [79, 75] = Inr (map byte_of [79, 75])"
  using utf8_encode_ascii[of "[79, 75]"] by simp

lemma utf8_decode_canonical_witness:
  "utf8_decode [104, 195, 169] = Some [104, 233] \<and> utf8_encode [104, 233] = Inr [104, 195, 169]"
proof -
  have d: "utf8_decode [104, 195, 169] = Some [104, 233]"
    by (simp add: is_cont_def is_surrogate_def Let_def)
  show ?thesis using d utf8_decode_canonical[OF d] by simp
qed

end
