(* ===== verification/Marshal.thy ===== *)
theory Marshal
  imports CTypes Utf8
begin

text \<open>
  The buffer marshalling of \<^verbatim>\<open>bulk_extractor_analyze_buf\<close> (lines 15--19 of
  \<^verbatim>\<open>modbulk_extractor.py\<close>): a \<^verbatim>\<open>str\<close> is encoded to a \<^verbatim>\<open>bytearray\<close> with
  the UTF-8 codec, every buffer is then wrapped without copying by
  \<^verbatim>\<open>(c_ubyte * len(buf)).from_buffer(buf)\<close>, and the native call receives the
  session pointer, the array and its length as a \<^verbatim>\<open>c_size_t\<close>. \<^verbatim>\<open>from_buffer\<close>
  accepts only writable buffers, so an immutable \<^verbatim>\<open>bytes\<close> object is refused with
  a \<^verbatim>\<open>TypeError\<close>.
\<close>

section \<open>Definitions\<close>

text \<open>
  The Python values the caller can pass as \<open>buf\<close>: a \<^verbatim>\<open>str\<close>, an instance of a
  subclass of \<^verbatim>\<open>str\<close> (for which \<^verbatim>\<open>type(buf) == str\<close> is false), \<^verbatim>\<open>bytes\<close>
  and \<^verbatim>\<open>bytearray\<close>.
\<close>

datatype py_buf = PyStr py_str | PyStrSubclass py_str | PyBytes bytes | PyByteArray bytes

text \<open>Lines 16--17: \<^verbatim>\<open>if type(buf) == str: buf = bytearray(buf, 'utf-8')\<close>.\<close>

definition str_to_bytearray :: "py_buf \<Rightarrow> be_error + py_buf" where
  "str_to_bytearray b =
     (case b of
        PyStr s \<Rightarrow> (case utf8_encode s of Inl e \<Rightarrow> Inl e | Inr bs \<Rightarrow> Inr (PyByteArray bs))
      | _ \<Rightarrow> Inr b)"

text \<open>
  Line 18: \<^verbatim>\<open>(c_ubyte * len(buf)).from_buffer(buf)\<close> shares the memory of a writable
  buffer; a \<^verbatim>\<open>bytes\<close> or \<^verbatim>\<open>str\<close> object is not one.
\<close>

definition from_buffer :: "py_buf \<Rightarrow> be_error + bytes" where
  "from_buffer b = (case b of PyByteArray bs \<Rightarrow> Inr bs | _ \<Rightarrow> Inl PyTypeError)"

definition marshal_buf :: "py_buf \<Rightarrow> be_error + bytes" where
  "marshal_buf b = (case str_to_bytearray b of Inl e \<Rightarrow> Inl e | Inr b' \<Rightarrow> from_buffer b')"

text \<open>Line 19: the length argument, \<^verbatim>\<open>len(buf)\<close> as a \<^verbatim>\<open>c_size_t\<close>.\<close>

definition buf_len :: "bytes \<Rightarrow> c_size_t" where
  "buf_len bs = of_nat (length bs)"

section \<open>Properties\<close>

lemma marshal_buf_str:
  "marshal_buf (PyStr s) = utf8_encode s"
  by (simp add: marshal_buf_def str_to_bytearray_def from_buffer_def split: sum.splits)

lemma marshal_buf_bytearray [simp]: "marshal_buf (PyByteArray bs) = Inr bs"
  by (simp add: marshal_buf_def str_to_bytearray_def from_buffer_def)

lemma marshal_buf_bytes [simp]: "marshal_buf (PyBytes bs) = Inl PyTypeError"
  by (simp add: marshal_buf_def str_to_bytearray_def from_buffer_def)

text \<open>
  Text and the bytearray of its UTF-8 encoding marshal to the same native buffer;
  text with a lone surrogate raises before any native call.
\<close>

lemma marshal_buf_encoding_equiv:
  "utf8_encode s = Inr bs \<Longrightarrow> marshal_buf (PyStr s) = marshal_buf (PyByteArray bs)"
  by (simp add: marshal_buf_str)

text \<open>
  C29. A \<^verbatim>\<open>str\<close> subclass is not encoded (the test is \<^verbatim>\<open>type(buf) == str\<close>, not
  \<^verbatim>\<open>isinstance\<close>) and \<^verbatim>\<open>from_buffer\<close> refuses it, while a \<^verbatim>\<open>str\<close> with the same
  code points is accepted; the spec (section 4.3) says text is encoded.
\<close>

theorem marshal_str_subclass:
  "marshal_buf (PyStrSubclass s) = Inl PyTypeError \<and> marshal_buf (PyStr s) = utf8_encode s"
  by (simp add: marshal_buf_def str_to_bytearray_def from_buffer_def split: sum.splits)

end
