(* ===== verification/Native.thy ===== *)
theory Native
  imports CTypes
begin

text \<open>
  The native engine \<^verbatim>\<open>libbulk_extractor.so\<close>, the external collaborator of spec
  section 6, as far as the binding depends on it. It is not in the repository: its
  scanning is a parameter, \<open>eng_events\<close>, the raw events it reports for a buffer, in
  order. During \<open>analyze\<close> it calls the registered thunk once per event,
  synchronously, and stops at the first non-zero status (the abort request of section
  4.1), returning that status, or 0 after the last event. This is an assumption about
  the engine, not a model of code of the repository: the lemmas here only unfold the
  loop for the properties of the binding proved elsewhere.
\<close>

section \<open>Definitions\<close>

text \<open>
  \<open>eng_unset r\<close> is what the engine reads as the status of the call for event
  \<open>r\<close> when the thunk writes nothing into the result slot (the callable raised or
  returned a non-\<^verbatim>\<open>int\<close>): the content of the libffi return buffer, which
  neither side initialises. Theorems hold for every such content.
\<close>

record engine =
  eng_events :: "bytes \<Rightarrow> raw_event list"
  eng_unset :: "raw_event \<Rightarrow> c_int"

text \<open>
  The engine's callback loop. The thunk is looked up in the Python heap at each call:
  \<open>None\<close> means its \<^verbatim>\<open>CFUNCTYPE\<close> object has been freed, and calling it is
  undefined behaviour.
\<close>

fun deliver ::
  "'s pyfun option \<Rightarrow> (raw_event \<Rightarrow> c_int) \<Rightarrow> raw_event list \<Rightarrow> 's \<Rightarrow> be_error + (c_int \<times> 's)"
where
  "deliver cb u [] s = Inr (0, s)"
| "deliver cb u (r # rs) s =
     (case cb of
        None \<Rightarrow> Inl UB_DanglingCallback
      | Some f \<Rightarrow>
          (case thunk_call f (u r) r s of
             Inl e \<Rightarrow> Inl e
           | Inr (st, s') \<Rightarrow> (if st = 0 then deliver cb u rs s' else Inr (st, s'))))"

section \<open>Properties of the callback loop\<close>

lemma deliver_dangling: "rs \<noteq> [] \<Longrightarrow> deliver None u rs s = Inl UB_DanglingCallback"
  by (cases rs) auto

text \<open>One step of the loop on an event whose arguments convert.\<close>

lemma deliver_Cons_Some:
  assumes "callback_args r = Inr a" and "f a s = (v, s')"
  shows "deliver (Some f) u (r # rs) s =
     (if store_result v (u r) = 0 then deliver (Some f) u rs s'
      else Inr (store_result v (u r), s'))"
  using assms by (simp add: thunk_call_Inr)

end
