(* ===== verification/Engine.thy ===== *)
theory Engine
  imports Marshal Native
begin

text \<open>
  The engine handle and its lifecycle: the module functions
  \<^verbatim>\<open>bulk_extractor_open\<close>, \<^verbatim>\<open>bulk_extractor_analyze_buf\<close> and
  \<^verbatim>\<open>bulk_extractor_close\<close> (lines 12--21 of \<^verbatim>\<open>modbulk_extractor.py\<close>) and the
  methods of \<^verbatim>\<open>class BulkExtractor\<close> (lines 28--56), over an explicit state: the
  object's \<open>handle\<close> attribute, the native library's table of open sessions, the
  live \<^verbatim>\<open>CFUNCTYPE\<close> thunk objects of the Python heap, and the state of the Python
  handlers.

  The native engine's session table follows the contract of spec section 6:
  \<open>open\<close> returns a fresh pointer or NULL, \<open>analyze\<close> and \<open>close\<close> act on open
  sessions; any other pointer is undefined behaviour. Its callback loop is
  \<open>Native.deliver\<close>.
\<close>

section \<open>State\<close>

text \<open>
  \<open>w_handle\<close> is \<^verbatim>\<open>self.handle\<close> of the \<^verbatim>\<open>BulkExtractor\<close> object bound in the
  caller (\<open>None\<close> is Python's \<^verbatim>\<open>None\<close>); \<open>w_sessions\<close> maps each open native
  session to the thunk registered with it; \<open>w_thunks\<close> holds the live thunk objects
  by identity; \<open>w_next\<close> is the next fresh identity; \<open>w_hs\<close> is the handlers' state.
\<close>

record 's world =
  w_handle :: "c_void_p option"
  w_sessions :: "c_void_p \<rightharpoonup> nat"
  w_thunks :: "nat \<rightharpoonup> 's pyfun"
  w_next :: nat
  w_hs :: 's

definition init_world :: "'s \<Rightarrow> 's world" where
  "init_world s0 =
     \<lparr>w_handle = None, w_sessions = Map.empty, w_thunks = Map.empty, w_next = 0, w_hs = s0\<rparr>"

section \<open>Module functions\<close>

text \<open>
  Lines 12--14. \<^verbatim>\<open>cb = BeCallback(cb)\<close> allocates a thunk object, the native
  \<open>open\<close> registers it with a new session \<open>p\<close> (NULL when it cannot allocate one),
  and the function returns: the local name \<^verbatim>\<open>cb\<close> was the only reference to the
  thunk, so the object is freed on return, while the session keeps its address.
  \<^verbatim>\<open>restype = c_void_p\<close> turns NULL into \<^verbatim>\<open>None\<close>.
\<close>

definition bulk_extractor_open ::
  "'s pyfun \<Rightarrow> c_void_p \<Rightarrow> 's world \<Rightarrow> c_void_p option \<times> 's world" where
  "bulk_extractor_open cb p w =
     (let t = w_next w;
          w1 = w\<lparr>w_thunks := (w_thunks w)(t \<mapsto> cb), w_next := Suc t\<rparr>;
          w2 = (if p = 0 then w1 else w1\<lparr>w_sessions := (w_sessions w1)(p \<mapsto> t)\<rparr>);
          w3 = w2\<lparr>w_thunks := (w_thunks w2)(t := None)\<rparr>
      in (c_void_p_result p, w3))"

text \<open>The native \<open>analyze\<close> on session pointer \<open>p\<close> with \<open>len\<close> bytes of \<open>bs\<close>.\<close>

definition native_analyze ::
  "engine \<Rightarrow> c_void_p \<Rightarrow> bytes \<Rightarrow> c_size_t \<Rightarrow> 's world \<Rightarrow> be_error + (c_int \<times> 's world)" where
  "native_analyze eng p bs len w =
     (if p = 0 then Inl UB_NullHandle
      else case w_sessions w p of
        None \<Rightarrow> Inl UB_BadHandle
      | Some t \<Rightarrow>
          (case deliver (w_thunks w t) (eng_unset eng) (eng_events eng (take (unat len) bs)) (w_hs w) of
             Inl e \<Rightarrow> Inl e
           | Inr (st, s') \<Rightarrow> Inr (st, w\<lparr>w_hs := s'\<rparr>)))"

text \<open>
  Lines 15--19: marshal the buffer, then call the engine with the pointer, the array
  and its length. The \<^verbatim>\<open>c_int\<close> status comes back as a Python \<^verbatim>\<open>int\<close>.
\<close>

definition bulk_extractor_analyze_buf ::
  "engine \<Rightarrow> c_void_p option \<Rightarrow> py_buf \<Rightarrow> 's world \<Rightarrow> be_error + (int \<times> 's world)" where
  "bulk_extractor_analyze_buf eng h b w =
     (case marshal_buf b of
        Inl e \<Rightarrow> Inl e
      | Inr bs \<Rightarrow>
          (case native_analyze eng (c_void_p_arg h) bs (buf_len bs) w of
             Inl e \<Rightarrow> Inl e
           | Inr (st, w') \<Rightarrow> Inr (c_int_get st, w')))"

text \<open>
  Lines 20--21. \<^verbatim>\<open>bulk_extractor_close\<close> has no \<^verbatim>\<open>argtypes\<close>, so the handle
  reaches the native \<open>close\<close> through \<open>int_arg_as_ptr\<close>. Closing a pointer that is
  not an open session is undefined behaviour. The native status is returned.
\<close>

definition bulk_extractor_close ::
  "c_void_p \<Rightarrow> 's world \<Rightarrow> be_error + (int \<times> 's world)" where
  "bulk_extractor_close h w =
     (let q = int_arg_as_ptr h in
      if q \<in> dom (w_sessions w) then Inr (0, w\<lparr>w_sessions := (w_sessions w)(q := None)\<rparr>)
      else Inl UB_BadHandle)"

section \<open>The BulkExtractor class\<close>

text \<open>Lines 29--30: \<^verbatim>\<open>self.handle = bulk_extractor_open(cb)\<close>.\<close>

definition BulkExtractor_init :: "'s pyfun \<Rightarrow> c_void_p \<Rightarrow> 's world \<Rightarrow> 's world" where
  "BulkExtractor_init cb p w =
     (case bulk_extractor_open cb p w of (h, w') \<Rightarrow> w'\<lparr>w_handle := h\<rparr>)"

text \<open>Lines 48--51: close a non-\<^verbatim>\<open>None\<close> handle once and set it to \<^verbatim>\<open>None\<close>.\<close>

definition BulkExtractor_close :: "'s world \<Rightarrow> be_error + 's world" where
  "BulkExtractor_close w =
     (case w_handle w of
        None \<Rightarrow> Inr w
      | Some h \<Rightarrow>
          (case bulk_extractor_close h w of
             Inl e \<Rightarrow> Inl e
           | Inr (_, w') \<Rightarrow> Inr (w'\<lparr>w_handle := None\<rparr>)))"

text \<open>Lines 55--56.\<close>

definition BulkExtractor_analyze_buf ::
  "engine \<Rightarrow> py_buf \<Rightarrow> 's world \<Rightarrow> be_error + (int \<times> 's world)" where
  "BulkExtractor_analyze_buf eng b w = bulk_extractor_analyze_buf eng (w_handle w) b w"

text \<open>
  The operations a caller performs on the object, with what each returns to Python.
  \<open>OpInit cb p\<close> constructs a new object, \<open>p\<close> being the pointer the native
  \<open>open\<close> returns (0 for NULL); \<open>OpEnter\<close> and \<open>OpExit\<close> are the context-manager
  protocol of lines 32--36 (\<^verbatim>\<open>__exit__\<close> closes and returns \<^verbatim>\<open>False\<close>, so an
  exception leaving the \<^verbatim>\<open>with\<close> block propagates).
\<close>

datatype 's be_op =
    OpInit "'s pyfun" c_void_p
  | OpEnter
  | OpExit
  | OpClose
  | OpAnalyze py_buf

datatype py_val = PyNone | PyInt int | PyBool bool | PySelf

fun be_exec :: "engine \<Rightarrow> 's be_op \<Rightarrow> 's world \<Rightarrow> be_error + (py_val \<times> 's world)" where
  "be_exec eng (OpInit cb p) w = Inr (PySelf, BulkExtractor_init cb p w)"
| "be_exec eng OpEnter w = Inr (PySelf, w)"
| "be_exec eng OpExit w =
     (case BulkExtractor_close w of Inl e \<Rightarrow> Inl e | Inr w' \<Rightarrow> Inr (PyBool False, w'))"
| "be_exec eng OpClose w =
     (case BulkExtractor_close w of Inl e \<Rightarrow> Inl e | Inr w' \<Rightarrow> Inr (PyNone, w'))"
| "be_exec eng (OpAnalyze b) w =
     (case BulkExtractor_analyze_buf eng b w of
        Inl e \<Rightarrow> Inl e
      | Inr (r, w') \<Rightarrow> Inr (PyInt r, w'))"

text \<open>
  A sequence of statements on the object: it stops at the first error, as an
  exception does, and returns the error with the state in which it was raised.
\<close>

fun be_run :: "engine \<Rightarrow> 's be_op list \<Rightarrow> 's world \<Rightarrow> be_error option \<times> 's world" where
  "be_run eng [] w = (None, w)"
| "be_run eng (op # ops) w =
     (case be_exec eng op w of Inl e \<Rightarrow> (Some e, w) | Inr (_, w') \<Rightarrow> be_run eng ops w')"

text \<open>Python's truth value of the values the methods return.\<close>

fun py_truthy :: "py_val \<Rightarrow> bool" where
  "py_truthy PyNone = False"
| "py_truthy (PyInt i) = (i \<noteq> 0)"
| "py_truthy (PyBool b) = b"
| "py_truthy PySelf = True"

text \<open>
  \<^verbatim>\<open>with BulkExtractor(cb) as b_e: body\<close> (lines 31--36, used at lines 76 and 82),
  with the semantics of Python's \<^verbatim>\<open>with\<close> statement: construct the object, call
  \<^verbatim>\<open>__enter__\<close>, run the body, and call \<^verbatim>\<open>__exit__\<close> when the body ends
  normally (its result is ignored) or with a Python exception; then the exception is
  suppressed when \<^verbatim>\<open>__exit__\<close> returns a true value and propagates otherwise (an
  exception of \<^verbatim>\<open>__exit__\<close> itself replaces it). After undefined behaviour nothing
  runs.
\<close>

definition be_with ::
  "engine \<Rightarrow> 's pyfun \<Rightarrow> c_void_p \<Rightarrow> 's be_op list \<Rightarrow> 's world \<Rightarrow> be_error option \<times> 's world" where
  "be_with eng cb p body w =
     (case be_run eng (OpEnter # body) (BulkExtractor_init cb p w) of
        (None, w2) \<Rightarrow>
          (case be_exec eng OpExit w2 of Inl e \<Rightarrow> (Some e, w2) | Inr (_, w3) \<Rightarrow> (None, w3))
      | (Some e, w2) \<Rightarrow>
          (if is_py_exc e then
             (case be_exec eng OpExit w2 of
                Inl e' \<Rightarrow> (Some e', w2)
              | Inr (v, w3) \<Rightarrow> (if py_truthy v then (None, w3) else (Some e, w3)))
           else (Some e, w2)))"

section \<open>Step relation and reachable states\<close>

text \<open>
  A step is one operation that returns normally. The native \<open>open\<close> is the only choice
  of the environment: it returns NULL or a pointer that is not an open session.
\<close>

definition native_fresh :: "'s world \<Rightarrow> c_void_p \<Rightarrow> bool" where
  "native_fresh w p \<longleftrightarrow> p = 0 \<or> p \<notin> dom (w_sessions w)"

inductive be_step :: "engine \<Rightarrow> 's world \<Rightarrow> 's world \<Rightarrow> bool"
  for eng :: engine where
  init: "native_fresh w p \<Longrightarrow> be_step eng w (BulkExtractor_init cb p w)"
| enter: "be_step eng w w"
| close: "BulkExtractor_close w = Inr w' \<Longrightarrow> be_step eng w w'"
| analyze: "BulkExtractor_analyze_buf eng b w = Inr (r, w') \<Longrightarrow> be_step eng w w'"

inductive be_reach :: "engine \<Rightarrow> 's \<Rightarrow> 's world \<Rightarrow> bool"
  for eng :: engine and s0 :: 's where
  start: "be_reach eng s0 (init_world s0)"
| step: "be_reach eng s0 w \<Longrightarrow> be_step eng w w' \<Longrightarrow> be_reach eng s0 w'"

subsection \<open>State invariants\<close>

text \<open>
  The object's handle, when it is not \<^verbatim>\<open>None\<close>, is a non-NULL open session.
\<close>

definition handle_ok :: "'s world \<Rightarrow> bool" where
  "handle_ok w \<longleftrightarrow> (\<forall>p. w_handle w = Some p \<longrightarrow> p \<noteq> 0 \<and> p \<in> dom (w_sessions w))"

section \<open>Properties\<close>

inductive_cases be_step_cases: "be_step eng w w'"

subsection \<open>Effects of the module functions\<close>

lemma bulk_extractor_open_eq:
  "bulk_extractor_open cb p w =
     (c_void_p_result p,
      w\<lparr>w_sessions := (if p = 0 then w_sessions w else (w_sessions w)(p \<mapsto> w_next w)),
        w_thunks := (w_thunks w)(w_next w := None), w_next := Suc (w_next w)\<rparr>)"
  by (simp add: bulk_extractor_open_def Let_def)

lemma BulkExtractor_init_eq:
  "BulkExtractor_init cb p w =
     w\<lparr>w_handle := c_void_p_result p,
       w_sessions := (if p = 0 then w_sessions w else (w_sessions w)(p \<mapsto> w_next w)),
       w_thunks := (w_thunks w)(w_next w := None), w_next := Suc (w_next w)\<rparr>"
  by (simp add: BulkExtractor_init_def bulk_extractor_open_eq)

lemma native_analyze_Inr:
  "native_analyze eng p bs len w = Inr (st, w') \<Longrightarrow>
   w' = w\<lparr>w_hs := w_hs w'\<rparr>"
  by (auto simp: native_analyze_def split: if_splits option.splits sum.splits prod.splits)

lemma BulkExtractor_analyze_buf_Inr:
  "BulkExtractor_analyze_buf eng b w = Inr (r, w') \<Longrightarrow> w' = w\<lparr>w_hs := w_hs w'\<rparr>"
  by (auto simp: BulkExtractor_analyze_buf_def bulk_extractor_analyze_buf_def
      dest: native_analyze_Inr split: sum.splits prod.splits)

lemma BulkExtractor_close_Inr:
  "BulkExtractor_close w = Inr w' \<Longrightarrow>
   w_handle w' = None \<and> w_thunks w' = w_thunks w \<and> w_next w' = w_next w \<and>
   dom (w_sessions w') \<subseteq> dom (w_sessions w) \<and> w_hs w' = w_hs w"
  by (auto simp: BulkExtractor_close_def bulk_extractor_close_def Let_def
      split: option.splits if_splits sum.splits prod.splits)

lemma BulkExtractor_analyze_buf_frame:
  assumes "BulkExtractor_analyze_buf eng b w = Inr (r, w')"
  shows "w_handle w' = w_handle w \<and> w_sessions w' = w_sessions w \<and>
         w_thunks w' = w_thunks w \<and> w_next w' = w_next w"
proof -
  from assms have "w' = w\<lparr>w_hs := w_hs w'\<rparr>" by (rule BulkExtractor_analyze_buf_Inr)
  then show ?thesis by (metis world.select_convs(1-4) world.surjective world.update_convs(5))
qed

subsection \<open>Invariants of the reachable states\<close>

text \<open>
  Every thunk object the binding created has been freed: \<open>bulk_extractor_open\<close>
  drops the only reference to the \<^verbatim>\<open>BeCallback\<close> object when it returns, and no
  other operation creates one.
\<close>

lemma be_step_thunks:
  "be_step eng w w' \<Longrightarrow> w_thunks w = Map.empty \<Longrightarrow> w_thunks w' = Map.empty"
proof (induction rule: be_step.induct)
  case (init w p cb)
  then show ?case by (simp add: BulkExtractor_init_eq)
next
  case (enter w)
  then show ?case by simp
next
  case (close w w')
  then show ?case by (simp add: BulkExtractor_close_Inr)
next
  case (analyze b w r w')
  then show ?case by (simp add: BulkExtractor_analyze_buf_frame)
qed

lemma be_step_handle_ok:
  "be_step eng w w' \<Longrightarrow> handle_ok w \<Longrightarrow> handle_ok w'"
proof (induction rule: be_step.induct)
  case (init w p cb)
  then show ?case by (simp add: handle_ok_def BulkExtractor_init_eq c_void_p_result_def)
next
  case (enter w)
  then show ?case .
next
  case (close w w')
  then show ?case by (simp add: handle_ok_def BulkExtractor_close_Inr)
next
  case (analyze b w r w')
  then show ?case by (simp add: handle_ok_def BulkExtractor_analyze_buf_frame)
qed

lemma be_reach_thunks_freed: "be_reach eng s0 w \<Longrightarrow> w_thunks w = Map.empty"
  by (induction rule: be_reach.induct) (auto simp: init_world_def be_step_thunks)

lemma be_reach_handle_ok: "be_reach eng s0 w \<Longrightarrow> handle_ok w"
proof (induction rule: be_reach.induct)
  case start
  show ?case by (simp add: init_world_def handle_ok_def)
next
  case (step w w')
  then show ?case by (blast intro: be_step_handle_ok)
qed

subsection \<open>Analysis\<close>

lemma take_buf_len [simp]: "length bs < 2 ^ 64 \<Longrightarrow> take (unat (buf_len bs)) bs = bs"
  by (simp add: buf_len_def unat_of_nat)

text \<open>The native analysis of an open session, unfolded.\<close>

lemma BulkExtractor_analyze_buf_session:
  assumes "w_handle w = Some p" and "p \<noteq> 0" and "w_sessions w p = Some t"
    and "marshal_buf b = Inr bs"
  shows "BulkExtractor_analyze_buf eng b w =
     (case deliver (w_thunks w t) (eng_unset eng) (eng_events eng (take (unat (buf_len bs)) bs))
        (w_hs w) of
        Inl e \<Rightarrow> Inl e
      | Inr (st, s') \<Rightarrow> Inr (c_int_get st, w\<lparr>w_hs := s'\<rparr>))"
  using assms
  by (simp add: BulkExtractor_analyze_buf_def bulk_extractor_analyze_buf_def native_analyze_def
      c_void_p_arg_def split: sum.splits prod.splits)

text \<open>
  Without a handle the engine is called with a NULL session, after the buffer has been
  marshalled.
\<close>

lemma BulkExtractor_analyze_buf_no_handle:
  "w_handle w = None \<Longrightarrow> marshal_buf b = Inr bs \<Longrightarrow>
   BulkExtractor_analyze_buf eng b w = Inl UB_NullHandle"
  by (simp add: BulkExtractor_analyze_buf_def bulk_extractor_analyze_buf_def native_analyze_def
      c_void_p_arg_def)

lemma BulkExtractor_analyze_buf_marshal_error:
  "marshal_buf b = Inl e \<Longrightarrow> BulkExtractor_analyze_buf eng b w = Inl e"
  by (simp add: BulkExtractor_analyze_buf_def bulk_extractor_analyze_buf_def)

text \<open>The engine's status is handed back as a Python \<^verbatim>\<open>int\<close>, non-zero or not.\<close>

lemma bulk_extractor_analyze_buf_status:
  "marshal_buf b = Inr bs \<Longrightarrow> native_analyze eng (c_void_p_arg h) bs (buf_len bs) w = Inr (st, w') \<Longrightarrow>
   bulk_extractor_analyze_buf eng h b w = Inr (sint st, w')"
  by (simp add: bulk_extractor_analyze_buf_def c_int_get_def)

subsection \<open>Closing\<close>

lemma BulkExtractor_close_None [simp]:
  "w_handle w = None \<Longrightarrow> BulkExtractor_close w = Inr w"
  by (simp add: BulkExtractor_close_def)

lemma BulkExtractor_close_small:
  assumes "w_handle w = Some p" and "p \<in> dom (w_sessions w)" and "unat p < 2 ^ 31"
  shows "BulkExtractor_close w =
           Inr (w\<lparr>w_sessions := (w_sessions w)(p := None), w_handle := None\<rparr>)"
  using assms int_arg_as_ptr_small[OF assms(3)]
  by (simp add: BulkExtractor_close_def bulk_extractor_close_def)

subsection \<open>The registered callback does not outlive \<^verbatim>\<open>bulk_extractor_open\<close>\<close>

text \<open>
  C3. In every reachable state, the thunk registered with an open native session has
  been freed: the binding keeps no reference to the \<^verbatim>\<open>BeCallback\<close> object, so the
  spec's requirement that the callback registration outlive the handle (section 3,
  CallbackRegistration) is violated from the moment the object is constructed.
\<close>

theorem session_callback_freed:
  assumes "be_reach eng s0 w" and "w_sessions w p = Some t"
  shows "w_thunks w t = None"
  using be_reach_thunks_freed[OF assms(1)] by simp

theorem session_callback_freed_witness:
  "be_reach \<lparr>eng_events = \<lambda>_. [], eng_unset = \<lambda>_. 0\<rparr> (0::nat)
      (BulkExtractor_init (\<lambda>a s. (PyReturn 0, s)) 4096 (init_world 0)) \<and>
   w_sessions (BulkExtractor_init (\<lambda>a s. (PyReturn 0, s::nat)) 4096 (init_world 0)) 4096 = Some 0 \<and>
   w_thunks (BulkExtractor_init (\<lambda>a s. (PyReturn 0, s::nat)) 4096 (init_world 0)) 0 = None"
proof -
  let ?w = "BulkExtractor_init (\<lambda>a s. (PyReturn 0, s::nat)) 4096 (init_world 0)"
  have r: "be_reach \<lparr>eng_events = \<lambda>_. [], eng_unset = \<lambda>_. 0\<rparr> (0::nat) ?w"
    by (rule be_reach.step[OF be_reach.start be_step.init]) (simp add: native_fresh_def init_world_def)
  have "w_sessions ?w 4096 = Some 0"
    by (simp add: BulkExtractor_init_eq init_world_def)
  with r show ?thesis using session_callback_freed[OF r] by simp
qed

text \<open>
  C2. Consequently every analysis that makes the engine report at least one event ends
  in undefined behaviour: the engine calls a freed thunk. This holds in every reachable
  state whose handle is set, for every buffer the marshalling accepts.
\<close>

theorem analyze_dangling_callback:
  assumes "be_reach eng s0 w" and "w_handle w = Some p" and "marshal_buf b = Inr bs"
    and "eng_events eng (take (unat (buf_len bs)) bs) \<noteq> []"
  shows "BulkExtractor_analyze_buf eng b w = Inl UB_DanglingCallback"
proof -
  from be_reach_handle_ok[OF assms(1)] assms(2) obtain t
    where p: "p \<noteq> 0" and t: "w_sessions w p = Some t"
    by (auto simp: handle_ok_def)
  have "w_thunks w t = None" using be_reach_thunks_freed[OF assms(1)] by simp
  with assms(2-4) p t show ?thesis
    by (simp add: BulkExtractor_analyze_buf_session deliver_dangling)
qed

theorem analyze_dangling_callback_witness:
  "BulkExtractor_analyze_buf
      \<lparr>eng_events = \<lambda>_. [\<lparr>ev_flag = 1, ev_arg = 0, ev_name = CNull, ev_pos = CNull,
                           ev_feature = CNull, ev_feature_len = 0,
                           ev_context = CNull, ev_context_len = 0\<rparr>], eng_unset = \<lambda>_. 0\<rparr>
      (PyByteArray [65])
      (BulkExtractor_init (\<lambda>a s. (PyReturn 0, s::nat)) 4096 (init_world 0))
   = Inl UB_DanglingCallback"
proof -
  let ?e = "\<lparr>eng_events = \<lambda>_. [\<lparr>ev_flag = 1, ev_arg = 0, ev_name = CNull, ev_pos = CNull,
                           ev_feature = CNull, ev_feature_len = 0,
                           ev_context = CNull, ev_context_len = 0\<rparr>], eng_unset = \<lambda>_. 0\<rparr>"
  let ?w = "BulkExtractor_init (\<lambda>a s. (PyReturn 0, s::nat)) 4096 (init_world 0)"
  have r: "be_reach ?e (0::nat) ?w"
    by (rule be_reach.step[OF be_reach.start be_step.init]) (simp add: native_fresh_def init_world_def)
  have h: "w_handle ?w = Some 4096"
    by (simp add: BulkExtractor_init_eq c_void_p_result_def)
  show ?thesis
    by (rule analyze_dangling_callback[OF r h]) simp_all
qed

subsection \<open>The handle\<close>

text \<open>
  C10. In every reachable state the object's handle, when set, is a non-NULL pointer to
  an open native session.
\<close>

theorem handle_is_open_session:
  assumes "be_reach eng s0 w" and "w_handle w = Some p"
  shows "p \<noteq> 0 \<and> p \<in> dom (w_sessions w)"
  using be_reach_handle_ok[OF assms(1)] assms(2) by (simp add: handle_ok_def)

theorem handle_is_open_session_witness:
  "(4096::c_void_p) \<noteq> 0 \<and>
   4096 \<in> dom (w_sessions (BulkExtractor_init (\<lambda>a s. (PyReturn 0, s::nat)) 4096 (init_world 0)))"
proof -
  let ?w = "BulkExtractor_init (\<lambda>a s. (PyReturn 0, s::nat)) 4096 (init_world 0)"
  have r: "be_reach \<lparr>eng_events = \<lambda>_. [], eng_unset = \<lambda>_. 0\<rparr> (0::nat) ?w"
    by (rule be_reach.step[OF be_reach.start be_step.init]) (simp add: native_fresh_def init_world_def)
  have h: "w_handle ?w = Some 4096"
    by (simp add: BulkExtractor_init_eq c_void_p_result_def)
  show ?thesis by (rule handle_is_open_session[OF r h])
qed

text \<open>
  C13. A failed native \<open>open\<close> (NULL) raises nothing: the object is built with handle
  \<^verbatim>\<open>None\<close>, and its first analysis reaches the engine with a NULL session. The spec
  (section 4.4, 7) requires an OpenError at construction.
\<close>

theorem open_failure_not_raised:
  assumes "marshal_buf b = Inr bs"
  shows "w_handle (BulkExtractor_init cb 0 w) = None \<and>
         BulkExtractor_analyze_buf eng b (BulkExtractor_init cb 0 w) = Inl UB_NullHandle"
proof -
  have "w_handle (BulkExtractor_init cb 0 w) = None"
    by (simp add: BulkExtractor_init_eq c_void_p_result_def)
  with assms show ?thesis by (simp add: BulkExtractor_analyze_buf_no_handle)
qed

theorem open_failure_not_raised_witness:
  "w_handle (BulkExtractor_init (\<lambda>a s. (PyReturn 0, s::nat)) 0 (init_world 0)) = None \<and>
   BulkExtractor_analyze_buf \<lparr>eng_events = \<lambda>_. [], eng_unset = \<lambda>_. 0\<rparr> (PyByteArray [65])
     (BulkExtractor_init (\<lambda>a s. (PyReturn 0, s::nat)) 0 (init_world 0)) = Inl UB_NullHandle"
  by (rule open_failure_not_raised) simp

subsection \<open>Closing\<close>

text \<open>
  C8. After a successful \<^verbatim>\<open>close()\<close> the handle is \<^verbatim>\<open>None\<close>, and a later
  \<^verbatim>\<open>analyze_buf\<close> passes a NULL session to the engine: undefined behaviour in the
  native library, not the fail-fast UseAfterCloseError of spec sections 4.4 and 8.
\<close>

theorem analyze_after_close:
  assumes "BulkExtractor_close w = Inr w'" and "marshal_buf b = Inr bs"
  shows "BulkExtractor_analyze_buf eng b w' = Inl UB_NullHandle"
  using BulkExtractor_close_Inr[OF assms(1)] assms(2)
  by (simp add: BulkExtractor_analyze_buf_no_handle)

theorem analyze_after_close_witness:
  "BulkExtractor_close (BulkExtractor_init (\<lambda>a s. (PyReturn 0, s::nat)) 4096 (init_world 0)) =
     Inr ((init_world (0::nat))\<lparr>w_next := 1\<rparr>) \<and>
   BulkExtractor_analyze_buf \<lparr>eng_events = \<lambda>_. [], eng_unset = \<lambda>_. 0\<rparr> (PyByteArray [65])
     ((init_world (0::nat))\<lparr>w_next := 1\<rparr>) = Inl UB_NullHandle"
proof -
  have c: "BulkExtractor_close (BulkExtractor_init (\<lambda>a s. (PyReturn 0, s::nat)) 4096 (init_world 0)) =
     Inr ((init_world (0::nat))\<lparr>w_next := 1\<rparr>)"
    by (simp add: BulkExtractor_init_eq BulkExtractor_close_def bulk_extractor_close_def
        int_arg_as_ptr_def init_world_def c_void_p_result_def)
  have "marshal_buf (PyByteArray [65]) = Inr [65]" by simp
  from analyze_after_close[OF c this] c show ?thesis by simp
qed

text \<open>
  C9. \<^verbatim>\<open>close()\<close> is idempotent: once it has returned, calling it again returns at
  once, with no native call and no change of state.
\<close>

theorem close_idempotent:
  assumes "BulkExtractor_close w = Inr w'"
  shows "BulkExtractor_close w' = Inr w'"
  using BulkExtractor_close_Inr[OF assms] by simp

theorem close_idempotent_witness:
  "BulkExtractor_close (BulkExtractor_init (\<lambda>a s. (PyReturn 0, s::nat)) 4096 (init_world 0)) =
     Inr ((init_world 0)\<lparr>w_next := 1\<rparr>) \<and>
   BulkExtractor_close ((init_world (0::nat))\<lparr>w_next := 1\<rparr>) = Inr ((init_world 0)\<lparr>w_next := 1\<rparr>)"
proof -
  have c: "BulkExtractor_close (BulkExtractor_init (\<lambda>a s. (PyReturn 0, s::nat)) 4096 (init_world 0)) =
     Inr ((init_world 0)\<lparr>w_next := 1\<rparr>)"
    by (simp add: BulkExtractor_init_eq BulkExtractor_close_def bulk_extractor_close_def
        int_arg_as_ptr_def init_world_def c_void_p_result_def)
  show ?thesis using c close_idempotent[OF c] by simp
qed

text \<open>
  C12. In a reachable state whose handle is below \<open>2^31\<close>, \<^verbatim>\<open>close()\<close> closes
  exactly that session and clears the handle.
\<close>

theorem close_low_handle:
  assumes "be_reach eng s0 w" and "w_handle w = Some p" and "unat p < 2 ^ 31"
  shows "BulkExtractor_close w =
           Inr (w\<lparr>w_sessions := (w_sessions w)(p := None), w_handle := None\<rparr>)"
proof -
  have d: "p \<in> dom (w_sessions w)"
    using be_reach_handle_ok[OF assms(1)] assms(2) by (simp add: handle_ok_def)
  show ?thesis by (rule BulkExtractor_close_small[OF assms(2) d assms(3)])
qed

theorem close_low_handle_witness:
  "BulkExtractor_close (BulkExtractor_init (\<lambda>a s. (PyReturn 0, s::nat)) 4096 (init_world 0)) =
     Inr ((init_world 0)\<lparr>w_next := 1\<rparr>)"
proof -
  let ?w = "BulkExtractor_init (\<lambda>a s. (PyReturn 0, s::nat)) 4096 (init_world 0)"
  have r: "be_reach \<lparr>eng_events = \<lambda>_. [], eng_unset = \<lambda>_. 0\<rparr> (0::nat) ?w"
    by (rule be_reach.step[OF be_reach.start be_step.init]) (simp add: native_fresh_def init_world_def)
  have h: "w_handle ?w = Some 4096"
    by (simp add: BulkExtractor_init_eq c_void_p_result_def)
  have "BulkExtractor_close ?w = Inr (?w\<lparr>w_sessions := (w_sessions ?w)(4096 := None), w_handle := None\<rparr>)"
    by (rule close_low_handle[OF r h]) simp
  then show ?thesis by (simp add: BulkExtractor_init_eq init_world_def)
qed

text \<open>
  C11. A handle in \<open>[2^31, 2^63)\<close>, the range of the user-space heap addresses of a
  64-bit Linux process, is truncated to a sign-extended 32-bit value on its way into the
  native \<open>close\<close> (line 21 has no \<^verbatim>\<open>argtypes\<close>). In every reachable state with
  such a handle, \<^verbatim>\<open>close()\<close> never closes the object's own session: either the
  truncated pointer is not a session (undefined behaviour), or it closes some other
  session, and then the own session stays open while the handle is cleared.
\<close>

theorem close_high_handle_bad:
  assumes "be_reach eng s0 w" and "w_handle w = Some p"
    and "2 ^ 31 \<le> unat p" and "unat p < 2 ^ 63"
  shows "case BulkExtractor_close w of
           Inl e \<Rightarrow> e = UB_BadHandle
         | Inr w' \<Rightarrow> p \<in> dom (w_sessions w') \<and> w_handle w' = None"
proof -
  have d: "p \<in> dom (w_sessions w)"
    using be_reach_handle_ok[OF assms(1)] assms(2) by (simp add: handle_ok_def)
  have q: "int_arg_as_ptr p \<noteq> p" by (rule int_arg_as_ptr_high[OF assms(3,4)])
  from assms(2) d q show ?thesis
    by (auto simp: BulkExtractor_close_def bulk_extractor_close_def Let_def)
qed

theorem close_high_handle_bad_witness:
  "be_reach \<lparr>eng_events = \<lambda>_. [], eng_unset = \<lambda>_. 0\<rparr> (0::nat)
      (BulkExtractor_init (\<lambda>a s. (PyReturn 0, s)) 0x7f0012345678 (init_world 0)) \<and>
   w_handle (BulkExtractor_init (\<lambda>a s. (PyReturn 0, s::nat)) 0x7f0012345678 (init_world 0)) =
     Some 0x7f0012345678 \<and>
   2 ^ 31 \<le> unat (0x7f0012345678 :: c_void_p) \<and> unat (0x7f0012345678 :: c_void_p) < 2 ^ 63 \<and>
   (case BulkExtractor_close
           (BulkExtractor_init (\<lambda>a s. (PyReturn 0, s::nat)) 0x7f0012345678 (init_world 0)) of
      Inl e \<Rightarrow> e = UB_BadHandle
    | Inr w' \<Rightarrow> 0x7f0012345678 \<in> dom (w_sessions w') \<and> w_handle w' = None)"
proof -
  let ?w = "BulkExtractor_init (\<lambda>a s. (PyReturn 0, s::nat)) 0x7f0012345678 (init_world 0)"
  have r: "be_reach \<lparr>eng_events = \<lambda>_. [], eng_unset = \<lambda>_. 0\<rparr> (0::nat) ?w"
    by (rule be_reach.step[OF be_reach.start be_step.init]) (simp add: native_fresh_def init_world_def)
  have h: "w_handle ?w = Some 0x7f0012345678"
    by (simp add: BulkExtractor_init_eq c_void_p_result_def)
  have u: "2 ^ 31 \<le> unat (0x7f0012345678 :: c_void_p)" "unat (0x7f0012345678 :: c_void_p) < 2 ^ 63"
    by simp_all
  show ?thesis using r h u close_high_handle_bad[OF r h u] by simp
qed

subsection \<open>Scoped use\<close>

lemma BulkExtractor_init_open:
  assumes "native_fresh w p" and "p \<noteq> 0"
  shows "w_handle (BulkExtractor_init cb p w) = Some p \<and>
         p \<in> dom (w_sessions (BulkExtractor_init cb p w))"
  using assms by (simp add: BulkExtractor_init_eq c_void_p_result_def)

lemma BulkExtractor_close_init:
  assumes "native_fresh w p" and "p \<noteq> 0" and "unat p < 2 ^ 31" and "w_handle w' = Some p"
    and "w_sessions w' = w_sessions (BulkExtractor_init cb p w)"
  shows "\<exists>w''. BulkExtractor_close w' = Inr w'' \<and> w_handle w'' = None \<and>
               p \<notin> dom (w_sessions w'')"
  using BulkExtractor_close_small[OF assms(4) _ assms(3)] BulkExtractor_init_open[OF assms(1,2)] assms(5)
  by simp

text \<open>
  The body of a \<^verbatim>\<open>with\<close> block on a fresh session: one analysis in which the
  engine reports no event. It returns 0 and leaves the state as it was.
\<close>

lemma be_run_analyze_quiet:
  assumes "native_fresh w p" and "p \<noteq> 0"
    and "marshal_buf b = Inr bs" and "eng_events eng (take (unat (buf_len bs)) bs) = []"
  shows "be_run eng [OpEnter, OpAnalyze b] (BulkExtractor_init cb p w) =
           (None, BulkExtractor_init cb p w)"
proof -
  let ?w1 = "BulkExtractor_init cb p w"
  have h: "w_handle ?w1 = Some p" and t: "w_sessions ?w1 p = Some (w_next w)"
    using assms(1,2) by (simp_all add: BulkExtractor_init_eq c_void_p_result_def)
  have "BulkExtractor_analyze_buf eng b ?w1 = Inr (0, ?w1)"
    using BulkExtractor_analyze_buf_session[OF h assms(2) t assms(3)] assms(4)
    by (simp add: c_int_get_def)
  then show ?thesis by simp
qed

text \<open>
  Such a block on a session below \<open>2^31\<close> returns normally, with the session
  closed and the handle cleared.
\<close>

lemma be_with_analyze_quiet:
  assumes "native_fresh w p" and "p \<noteq> 0" and "unat p < 2 ^ 31"
    and "marshal_buf b = Inr bs" and "eng_events eng (take (unat (buf_len bs)) bs) = []"
  shows "be_with eng cb p [OpAnalyze b] w =
           (None, (BulkExtractor_init cb p w)\<lparr>w_sessions := w_sessions w, w_handle := None\<rparr>)"
proof -
  let ?w1 = "BulkExtractor_init cb p w"
  have h: "w_handle ?w1 = Some p" and d: "p \<in> dom (w_sessions ?w1)"
    using BulkExtractor_init_open[OF assms(1,2)] by simp_all
  have f: "(w_sessions w)(p := None) = w_sessions w"
    using assms(1,2) by (auto simp: native_fresh_def)
  have "BulkExtractor_close ?w1 =
          Inr (?w1\<lparr>w_sessions := w_sessions w, w_handle := None\<rparr>)"
    using BulkExtractor_close_small[OF h d assms(3)] assms(2) f
    by (simp add: BulkExtractor_init_eq)
  with be_run_analyze_quiet[OF assms(1,2,4,5)] show ?thesis
    by (simp add: be_with_def)
qed

text \<open>
  C27. Cleanup on the exception path (spec section 7): when the body of
  \<^verbatim>\<open>with BulkExtractor(cb) as b_e: b_e.analyze_buf(buf)\<close> raises a Python exception
  (\<^verbatim>\<open>TypeError\<close> for \<^verbatim>\<open>bytes\<close>, \<^verbatim>\<open>UnicodeEncodeError\<close> for a surrogate),
  \<^verbatim>\<open>__exit__\<close> closes the session, clears the handle and lets the exception
  propagate (for a session pointer below \<open>2^31\<close>, see C11).
\<close>

theorem with_closes_on_exception:
  assumes "native_fresh w p" and "p \<noteq> 0" and "unat p < 2 ^ 31"
    and "marshal_buf b = Inl e" and "is_py_exc e"
  shows "\<exists>w'. be_with eng cb p [OpAnalyze b] w = (Some e, w') \<and>
              w_handle w' = None \<and> p \<notin> dom (w_sessions w')"
proof -
  let ?w1 = "BulkExtractor_init cb p w"
  have h: "w_handle ?w1 = Some p"
    using BulkExtractor_init_open[OF assms(1,2)] by simp
  obtain w'' where c: "BulkExtractor_close ?w1 = Inr w''" and n: "w_handle w'' = None"
    and d: "p \<notin> dom (w_sessions w'')"
    using BulkExtractor_close_init[OF assms(1-3) h refl] by blast
  have "be_run eng (OpEnter # [OpAnalyze b]) ?w1 = (Some e, ?w1)"
    using assms(4) by (simp add: BulkExtractor_analyze_buf_marshal_error)
  then have "be_with eng cb p [OpAnalyze b] w = (Some e, w'')"
    using assms(5) c by (simp add: be_with_def)
  with n d show ?thesis by blast
qed

text \<open>
  C28. Cleanup on the normal path: when the body returns (here, an analysis in which
  the engine reports no event), \<^verbatim>\<open>__exit__\<close> closes the session and clears the
  handle.
\<close>

theorem with_closes_on_normal_exit:
  assumes "native_fresh w p" and "p \<noteq> 0" and "unat p < 2 ^ 31"
    and "marshal_buf b = Inr bs" and "eng_events eng (take (unat (buf_len bs)) bs) = []"
  shows "\<exists>w'. be_with eng cb p [OpAnalyze b] w = (None, w') \<and>
              w_handle w' = None \<and> p \<notin> dom (w_sessions w')"
  using be_with_analyze_quiet[OF assms] assms(1,2) by (simp add: native_fresh_def)

subsection \<open>The buffer paths\<close>

text \<open>
  C14. An immutable \<^verbatim>\<open>bytes\<close> buffer is refused: \<^verbatim>\<open>from_buffer\<close> raises a
  \<^verbatim>\<open>TypeError\<close> before the engine is called, whatever the handle. The spec
  (section 4.3) says a byte sequence is accepted.
\<close>

theorem analyze_bytes_type_error:
  "BulkExtractor_analyze_buf eng (PyBytes bs) w = Inl PyTypeError"
  by (simp add: BulkExtractor_analyze_buf_marshal_error)

text \<open>
  C15. Encoding equivalence (spec section 8): analysing a text and analysing the
  \<^verbatim>\<open>bytearray\<close> of its UTF-8 encoding have the same outcome in every state:
  the same engine call, the same events, the same result and final state.
\<close>

theorem analyze_encoding_equiv:
  assumes "utf8_encode s = Inr bs"
  shows "BulkExtractor_analyze_buf eng (PyStr s) w = BulkExtractor_analyze_buf eng (PyByteArray bs) w"
  using assms
  by (simp add: BulkExtractor_analyze_buf_def bulk_extractor_analyze_buf_def marshal_buf_str)

theorem analyze_encoding_equiv_witness:
  "utf8_encode [104, 233] = Inr [104, 195, 169] \<and>
   BulkExtractor_analyze_buf \<lparr>eng_events = \<lambda>_. [], eng_unset = \<lambda>_. 0\<rparr> (PyStr [104, 233]) (init_world (0::nat)) =
   BulkExtractor_analyze_buf \<lparr>eng_events = \<lambda>_. [], eng_unset = \<lambda>_. 0\<rparr> (PyByteArray [104, 195, 169])
     (init_world 0)"
proof -
  have e: "utf8_encode [104, 233] = Inr [104, 195, 169]"
    by (simp add: utf8_encode_def utf8_char_def is_surrogate_def byte_of_def)
  show ?thesis using e analyze_encoding_equiv[OF e] by simp
qed

text \<open>
  C16. Scenario B on the code: with an open handle and a buffer in which the engine
  finds nothing, analysis returns 0 and changes nothing, whatever handlers were
  registered.
\<close>

theorem analyze_no_events:
  assumes "be_reach eng s0 w" and "w_handle w = Some p" and "marshal_buf b = Inr bs"
    and "eng_events eng (take (unat (buf_len bs)) bs) = []"
  shows "BulkExtractor_analyze_buf eng b w = Inr (0, w)"
proof -
  from be_reach_handle_ok[OF assms(1)] assms(2) obtain t
    where "p \<noteq> 0" and "w_sessions w p = Some t"
    by (auto simp: handle_ok_def)
  with assms(2-4) show ?thesis
    by (simp add: BulkExtractor_analyze_buf_session c_int_get_def)
qed

theorem analyze_no_events_witness:
  "BulkExtractor_analyze_buf \<lparr>eng_events = \<lambda>_. [], eng_unset = \<lambda>_. 0\<rparr> (PyByteArray [65])
      (BulkExtractor_init (\<lambda>a s. (PyReturn 0, s::nat)) 4096 (init_world 0))
   = Inr (0, BulkExtractor_init (\<lambda>a s. (PyReturn 0, s::nat)) 4096 (init_world 0))"
proof -
  let ?w = "BulkExtractor_init (\<lambda>a s. (PyReturn 0, s::nat)) 4096 (init_world 0)"
  have r: "be_reach \<lparr>eng_events = \<lambda>_. [], eng_unset = \<lambda>_. 0\<rparr> (0::nat) ?w"
    by (rule be_reach.step[OF be_reach.start be_step.init]) (simp add: native_fresh_def init_world_def)
  have h: "w_handle ?w = Some 4096"
    by (simp add: BulkExtractor_init_eq c_void_p_result_def)
  show ?thesis by (rule analyze_no_events[OF r h]) simp_all
qed

theorem with_closes_on_exception_witness:
  "native_fresh (init_world (0::nat)) 4096 \<and> (4096::c_void_p) \<noteq> 0 \<and> unat (4096::c_void_p) < 2 ^ 31 \<and>
   marshal_buf (PyBytes [65]) = Inl PyTypeError \<and> is_py_exc PyTypeError \<and>
   (\<exists>w'. be_with \<lparr>eng_events = \<lambda>_. [], eng_unset = \<lambda>_. 0\<rparr> (\<lambda>a s. (PyReturn 0, s)) 4096 [OpAnalyze (PyBytes [65])]
           (init_world (0::nat)) = (Some PyTypeError, w') \<and>
         w_handle w' = None \<and> 4096 \<notin> dom (w_sessions w'))"
proof -
  have f: "native_fresh (init_world (0::nat)) 4096" by (simp add: native_fresh_def init_world_def)
  have m: "marshal_buf (PyBytes [65]) = Inl PyTypeError" by simp
  have e: "is_py_exc PyTypeError" by (simp add: is_py_exc_def)
  show ?thesis
    using with_closes_on_exception[OF f _ _ m e, of "\<lparr>eng_events = \<lambda>_. [], eng_unset = \<lambda>_. 0\<rparr>" "\<lambda>a s. (PyReturn 0, s)"] f m e
    by simp
qed

theorem with_closes_on_normal_exit_witness:
  "native_fresh (init_world (0::nat)) 4096 \<and> (4096::c_void_p) \<noteq> 0 \<and> unat (4096::c_void_p) < 2 ^ 31 \<and>
   marshal_buf (PyByteArray [65]) = Inr [65] \<and>
   eng_events \<lparr>eng_events = \<lambda>_. [], eng_unset = \<lambda>_. 0\<rparr> (take (unat (buf_len [65])) [65]) = [] \<and>
   (\<exists>w'. be_with \<lparr>eng_events = \<lambda>_. [], eng_unset = \<lambda>_. 0\<rparr> (\<lambda>a s. (PyReturn 0, s)) 4096 [OpAnalyze (PyByteArray [65])]
           (init_world (0::nat)) = (None, w') \<and>
         w_handle w' = None \<and> 4096 \<notin> dom (w_sessions w'))"
proof -
  have f: "native_fresh (init_world (0::nat)) 4096" by (simp add: native_fresh_def init_world_def)
  have m: "marshal_buf (PyByteArray [65]) = Inr [65]" by simp
  have e: "eng_events \<lparr>eng_events = \<lambda>_. [], eng_unset = \<lambda>_. 0\<rparr> (take (unat (buf_len [65])) [65]) = []" by simp
  show ?thesis
    using with_closes_on_normal_exit[OF f _ _ m e, of "\<lambda>a s. (PyReturn 0, s)"] f m e
    by simp
qed

end
