(* ===== verification/Demo.thy ===== *)
theory Demo
  imports Dispatch Engine
begin

text \<open>
  The demo driver \<^verbatim>\<open>main()\<close> (lines 58--86 of \<^verbatim>\<open>modbulk_extractor.py\<close>): its
  four handlers, with \<^verbatim>\<open>print\<close> modelled as appending a line to the standard
  output (a line is the argument tuple or the typed event the handler prints), and its
  two \<^verbatim>\<open>with BulkExtractor(...) as b_e: b_e.analyze_buf(...)\<close> blocks as a sequence
  of operations on the object. The text formatting of the printed lines is not
  modelled.
\<close>

section \<open>Definitions\<close>

datatype out_line = RawLine py_args | EventLine event

type_synonym stdout = "out_line list"

text \<open>Lines 59--64: print every argument, return 0.\<close>

definition raw_callback :: "stdout pyfun" where
  "raw_callback a out = (PyReturn 0, out @ [RawLine a])"

text \<open>Lines 66--71: print the event, return 0.\<close>

definition feature_callback :: "stdout feature_cb" where
  "feature_callback n p ft cx out = (PyReturn 0, out @ [EventLine (FeatureEvent n p ft cx)])"

definition histogram_callback :: "stdout histogram_cb" where
  "histogram_callback n p ft k out = (PyReturn 0, out @ [EventLine (HistogramEvent n p ft k)])"

text \<open>
  Lines 72--74. The arguments of \<^verbatim>\<open>print\<close> are evaluated first, and
  \<^verbatim>\<open>len(carved_data)\<close> raises \<^verbatim>\<open>TypeError\<close> when the data pointer was NULL
  (\<^verbatim>\<open>c_char_p\<close> gives \<^verbatim>\<open>None\<close>): then nothing is printed and the handler
  raises.
\<close>

definition carve_callback :: "stdout carve_cb" where
  "carve_callback n p fn d out =
     (case d of
        None \<Rightarrow> (PyRaise, out)
      | Some _ \<Rightarrow> (PyReturn 0, out @ [EventLine (CarveEvent n p fn d)]))"

text \<open>The text both blocks analyse (lines 77 and 83), as code points.\<close>

definition demo_text :: py_str where
  "demo_text = map of_char ''ABCDEFG  demo@api.com Just a demo 617-555-1212 ok!''"

text \<open>
  Lines 76--83: the two \<^verbatim>\<open>with\<close> blocks, one after the other. \<open>p1\<close> and
  \<open>p2\<close> are the pointers the two native \<open>open\<close> calls return.
\<close>

definition main :: "engine \<Rightarrow> c_void_p \<Rightarrow> c_void_p \<Rightarrow> be_error option \<times> stdout world" where
  "main eng p1 p2 =
     (case be_with eng raw_callback p1 [OpAnalyze (PyStr demo_text)] (init_world []) of
        (None, w1) \<Rightarrow>
          be_with eng (wrap_callback feature_callback histogram_callback carve_callback) p2
            [OpAnalyze (PyStr demo_text)] w1
      | (Some e, w1) \<Rightarrow> (Some e, w1))"

section \<open>Properties\<close>

lemma demo_text_encodes:
  "utf8_encode demo_text = Inr (map byte_of demo_text)"
  by (rule utf8_encode_ascii) (simp add: demo_text_def)

text \<open>Both blocks hand the engine the whole of the demo text's bytes.\<close>

lemma demo_text_marshal:
  "marshal_buf (PyStr demo_text) = Inr (map byte_of demo_text)"
  "take (unat (buf_len (map byte_of demo_text))) (map byte_of demo_text) = map byte_of demo_text"
   apply (simp add: marshal_buf_str demo_text_encodes)
  by (rule take_buf_len) (simp add: demo_text_def)

text \<open>
  C24. The demo itself hits the dangling registration: when the native \<open>open\<close>
  succeeds and the engine reports any event for the demo text, the first
  \<^verbatim>\<open>analyze_buf\<close> of \<^verbatim>\<open>main()\<close> calls the freed \<^verbatim>\<open>raw_callback\<close> thunk.
\<close>

theorem main_dangling:
  assumes "p1 \<noteq> 0" and "eng_events eng (map byte_of demo_text) \<noteq> []"
  shows "fst (main eng p1 p2) = Some UB_DanglingCallback"
proof -
  let ?w = "BulkExtractor_init raw_callback p1 (init_world [])"
  have h: "w_handle ?w = Some p1" and t: "w_sessions ?w p1 = Some 0"
    and f: "w_thunks ?w 0 = None"
    using assms(1) by (simp_all add: BulkExtractor_init_eq c_void_p_result_def init_world_def)
  have "BulkExtractor_analyze_buf eng (PyStr demo_text) ?w = Inl UB_DanglingCallback"
    using BulkExtractor_analyze_buf_session[OF h assms(1) t demo_text_marshal(1)] f assms(2)
    by (simp add: demo_text_marshal(2) deliver_dangling)
  then show ?thesis by (simp add: main_def be_with_def is_py_exc_def)
qed

theorem main_dangling_witness:
  "(4096::c_void_p) \<noteq> 0 \<and>
   eng_events \<lparr>eng_events = \<lambda>bs. [\<lparr>ev_flag = 1, ev_arg = 0, ev_name = CNull, ev_pos = CNull,
       ev_feature = CNull, ev_feature_len = 0, ev_context = CNull, ev_context_len = 0\<rparr>], eng_unset = \<lambda>_. 0\<rparr>
     (map byte_of demo_text) \<noteq> [] \<and>
   fst (main \<lparr>eng_events = \<lambda>bs. [\<lparr>ev_flag = 1, ev_arg = 0, ev_name = CNull, ev_pos = CNull,
       ev_feature = CNull, ev_feature_len = 0, ev_context = CNull, ev_context_len = 0\<rparr>], eng_unset = \<lambda>_. 0\<rparr>
     4096 8192) = Some UB_DanglingCallback"
  using main_dangling[of 4096 "\<lparr>eng_events = \<lambda>bs. [\<lparr>ev_flag = 1, ev_arg = 0, ev_name = CNull,
       ev_pos = CNull, ev_feature = CNull, ev_feature_len = 0, ev_context = CNull,
       ev_context_len = 0\<rparr>], eng_unset = \<lambda>_. 0\<rparr>" 8192]
  by simp

text \<open>
  C31. On a 64-bit process, where the native \<open>open\<close> returns a heap address in
  \<open>[2^31, 2^63)\<close>, \<^verbatim>\<open>main()\<close> does not get past its first block even when the
  engine reports nothing: the first \<^verbatim>\<open>__exit__\<close> passes the truncated handle to
  the native \<open>close\<close>, which is not an open session.
\<close>

theorem main_close_truncated:
  assumes "2 ^ 31 \<le> unat p1" and "unat p1 < 2 ^ 63"
    and "eng_events eng (map byte_of demo_text) = []"
  shows "fst (main eng p1 p2) = Some UB_BadHandle"
proof -
  let ?w = "BulkExtractor_init raw_callback p1 (init_world [])"
  have p0: "p1 \<noteq> 0" using assms(1) by (metis not_less_zero unat_0 zero_less_numeral zero_less_power
      le_less_trans less_le_not_le)
  have f: "native_fresh (init_world []) p1" by (simp add: native_fresh_def init_world_def)
  have r: "be_run eng [OpEnter, OpAnalyze (PyStr demo_text)] ?w = (None, ?w)"
    by (rule be_run_analyze_quiet[OF f p0 demo_text_marshal(1)]) (simp add: demo_text_marshal(2) assms(3))
  have q: "int_arg_as_ptr p1 \<noteq> p1" by (rule int_arg_as_ptr_high[OF assms(1,2)])
  have "BulkExtractor_close ?w = Inl UB_BadHandle"
    using q p0 by (simp add: BulkExtractor_close_def bulk_extractor_close_def BulkExtractor_init_eq
        c_void_p_result_def init_world_def)
  with r show ?thesis by (simp add: main_def be_with_def)
qed


theorem main_close_truncated_witness:
  "2 ^ 31 \<le> unat (0x7f0012345678 :: c_void_p) \<and> unat (0x7f0012345678 :: c_void_p) < 2 ^ 63 \<and>
   eng_events \<lparr>eng_events = \<lambda>_. [], eng_unset = \<lambda>_. 0\<rparr> (map byte_of demo_text) = [] \<and>
   fst (main \<lparr>eng_events = \<lambda>_. [], eng_unset = \<lambda>_. 0\<rparr> 0x7f0012345678 4096) = Some UB_BadHandle"
proof -
  have u: "2 ^ 31 \<le> unat (0x7f0012345678 :: c_void_p)" "unat (0x7f0012345678 :: c_void_p) < 2 ^ 63"
    by simp_all
  have e: "eng_events \<lparr>eng_events = \<lambda>_. [], eng_unset = \<lambda>_. 0\<rparr> (map byte_of demo_text) = []"
    by simp
  show ?thesis using u e main_close_truncated[OF u e, of 4096] by simp
qed


end
