(* ===== verification/Spec2Isabelle.thy ===== *)
theory Spec2Isabelle
  imports Demo
begin

text \<open>
  \<^bold>\<open>A verification model of the bulk_extractor Python binding.\<close>

  The repository's one source file, \<^verbatim>\<open>src/python/module/modbulk_extractor.py\<close>,
  binds the native feature extractor \<^verbatim>\<open>libbulk_extractor.so\<close> through
  \<^verbatim>\<open>ctypes\<close>. Its parts, and how they interact:
  \<^item> the \<^emph>\<open>callback signature adapter\<close>: the \<^verbatim>\<open>BeCallback\<close> prototype (lines 4--5)
    and the ctypes conversions of the eight callback arguments and of the result;
  \<^item> the \<^emph>\<open>event demultiplexer\<close>: \<^verbatim>\<open>wrap_callback\<close> and \<^verbatim>\<open>_noop_cb\<close> (lines
    23--27, 37--47), which turn the one callback into calls of three handlers;
  \<^item> the \<^emph>\<open>buffer marshalling layer\<close>: \<^verbatim>\<open>bulk_extractor_analyze_buf\<close> (lines
    15--19), which encodes text as UTF-8 and hands the engine a pointer and a length;
  \<^item> the \<^emph>\<open>engine handle\<close>: \<^verbatim>\<open>bulk_extractor_open\<close>/\<^verbatim>\<open>_close\<close> (lines 12--14,
    20--21) and \<^verbatim>\<open>class BulkExtractor\<close> (lines 28--56), which own the native session;
  \<^item> the demo driver \<^verbatim>\<open>main()\<close> (lines 58--86).
  The caller builds handlers, wraps them, constructs a \<^verbatim>\<open>BulkExtractor\<close> (which
  registers the wrapped callback with a new native session), submits buffers, and the
  engine calls back synchronously during each \<^verbatim>\<open>analyze_buf\<close>, once per event,
  until a callback returns non-zero; \<^verbatim>\<open>close\<close> ends the session.

  \<^bold>\<open>Theories.\<close>
  \<^item> \<open>BE_Prelude\<close>: the C types as words (\<^verbatim>\<open>c_int\<close> = \<open>32 word\<close>, \<^verbatim>\<open>c_size_t\<close>
    and \<^verbatim>\<open>c_void_p\<close> = \<open>64 word\<close>, bytes as \<open>8 word list\<close>, Python \<^verbatim>\<open>str\<close> as a
    list of code points), the error type \<open>be_error\<close> (Python exceptions, and undefined
    behaviour at the native boundary, after which the model stops), the collection
    \<open>be_simps\<close> and shared lemmas on zero-terminated reads, positional digits and words.
  \<^item> \<open>CTypes\<close>: \<open>c_char_p_get\<close> (NULL to \<^verbatim>\<open>None\<close>, otherwise the bytes before the
    first zero byte), \<open>c_int_get\<close>/\<open>c_uint_get\<close> (signed/unsigned readings),
    \<open>c_int_set\<close> (the result stored modulo \<open>2^32\<close>), \<open>c_void_p_result\<close> and
    \<open>c_void_p_arg\<close> (lines 8, 10), \<open>int_arg_as_ptr\<close> (an argument without
    \<^verbatim>\<open>argtypes\<close> passed as a C \<^verbatim>\<open>int\<close>, line 21), the records \<open>raw_event\<close> and
    \<open>py_args\<close>, the outcome of a Python call (\<open>py_result\<close>: an \<^verbatim>\<open>int\<close>, another
    object, or an exception), \<open>store_result\<close> (the thunk's write into the \<^verbatim>\<open>c_int\<close>
    result slot, skipped when ctypes swallows an exception) and \<open>thunk_call\<close>, one
    call of the \<^verbatim>\<open>CFUNCTYPE\<close> thunk.
  \<^item> \<open>Dispatch\<close>: \<open>FLAG_*\<close>, \<open>noop_cb\<close>, \<open>wrap_callback\<close>; the spec's typed events
    (\<open>event\<close>), classification (\<open>spec_kind\<close>), re-shaping (\<open>make_event\<close>) and
    dispatcher (\<open>dispatch_event\<close>, \<open>spec_callback\<close>) as the abstract side.
  \<^item> \<open>Utf8\<close>: CPython's strict UTF-8 encoder (\<open>utf8_encode\<close>) as applied by
    \<^verbatim>\<open>bytearray(buf, 'utf-8')\<close>, and a strict decoder as its inverse.
  \<^item> \<open>Marshal\<close>: \<open>py_buf\<close> (\<^verbatim>\<open>str\<close>, an instance of a \<^verbatim>\<open>str\<close>
    subclass, \<^verbatim>\<open>bytes\<close>, \<^verbatim>\<open>bytearray\<close>),
    \<open>str_to_bytearray\<close>, \<open>from_buffer\<close>, \<open>marshal_buf\<close>, \<open>buf_len\<close>.
  \<^item> \<open>Native\<close>: the native collaborator as an interface (\<open>engine\<close>: the raw
    events it reports for a buffer and the content of a result slot the thunk leaves
    unwritten; \<open>deliver\<close>: its callback loop, stopping at the first non-zero status).
  \<^item> \<open>Engine\<close>: the state \<open>world\<close> (the object's \<^verbatim>\<open>handle\<close>, the native session
    table, the live thunk objects of the Python heap, the handlers' state),
    \<open>native_analyze\<close>, every module function and method as a function on the state
    (\<open>bulk_extractor_open\<close>, \<open>bulk_extractor_analyze_buf\<close>,
    \<open>bulk_extractor_close\<close>, \<open>BulkExtractor_init\<close>, \<open>BulkExtractor_close\<close>,
    \<open>BulkExtractor_analyze_buf\<close>, \<open>be_exec\<close> over the operations \<open>be_op\<close>),
    a sequence of operations (\<open>be_run\<close>, stopping at the first error), the
    \<^verbatim>\<open>with\<close> statement (\<open>be_with\<close>: \<^verbatim>\<open>__enter__\<close>, the body, and
    \<^verbatim>\<open>__exit__\<close> on normal exit or on a Python exception, which is suppressed
    when \<^verbatim>\<open>__exit__\<close> returns a true value (\<open>py_truthy\<close>) and propagates
    otherwise), the step relation \<open>be_step\<close>, the reachable states \<open>be_reach\<close>
    and the invariant \<open>handle_ok\<close>.
  \<^item> \<open>Demo\<close>: \<^verbatim>\<open>main()\<close>'s handlers (printing modelled as appending the printed
    values to an output list; the carve handler raises on \<^verbatim>\<open>len(None)\<close>) and its
    two \<^verbatim>\<open>with\<close> blocks, chained by \<open>main\<close>.
  \<^item> this theory: the event a raw event becomes (\<open>raw_event_of\<close>), the events
    \<^verbatim>\<open>main()\<close>'s handlers accept (\<open>handled_normally\<close>), and the properties
    that span the components.

  \<^bold>\<open>What is shown.\<close>
  \<^item> Demultiplexer: \<^verbatim>\<open>wrap_callback\<close> refines the spec's adapter on the three flag
    constants (C1), including the CARVE inversion (C6) and the histogram count (C25);
    it returns \<open>-1\<close> with no effect when no flag bit is set (C4); the no-op defaults
    answer 0 with no effect (C7); every other flag with one of the low three bits set
    is dispatched by bit priority where the spec answers \<open>-1\<close> (C5).
  \<^item> Lifecycle: in every reachable state the registered thunk has been freed (C3), so
    every analysis that produces an event is a call through freed memory (C2, and for
    \<^verbatim>\<open>main()\<close> itself, C24); the handle is an open session (C10); \<^verbatim>\<open>close\<close> is
    idempotent (C9) and closes its session for handles below \<open>2^31\<close> (C12), but for
    every handle in \<open>[2^31, 2^63)\<close> it never closes the object's own session
    (C11); use after close (C8) and a failed open (C13) reach the engine with NULL
    instead of raising; an analysis without events returns 0 (C16); a \<^verbatim>\<open>with\<close>
    block closes the object when the body raises, and the exception propagates because
    \<^verbatim>\<open>__exit__\<close> returns \<^verbatim>\<open>False\<close> (C27), and on normal exit (C28).
  \<^item> Marshalling: \<^verbatim>\<open>bytes\<close> raises \<^verbatim>\<open>TypeError\<close> (C14); text and its UTF-8
    bytearray behave the same (C15); the encoder round-trips (C17), reports the first
    surrogate (C18), uses one to four bytes per code point (C19), keeps ASCII (C20);
    the decoder accepts only canonical encodings (C26); a \<^verbatim>\<open>str\<close> subclass fails
    the exact type test and raises \<^verbatim>\<open>TypeError\<close> (C29).
  \<^item> Conversions: a terminated span arrives whole (C21), one with an embedded zero
    byte arrives truncated (C22).
  \<^item> Across components: with a live registration the handlers built from
    \<^verbatim>\<open>main()\<close>'s callbacks see exactly the typed events, in order (C23); the demo's
    carve handler raises on a carve event without data, and the engine then reads an
    unwritten status (C30); \<^verbatim>\<open>main()\<close> ends in undefined behaviour at its first
    \<^verbatim>\<open>__exit__\<close> whenever the session pointer is a 64-bit heap address (C31), and
    with sessions below \<open>2^31\<close> and no events it closes both sessions (C32).

  \<^bold>\<open>Bounds and assumptions.\<close> Words have the LP64 widths of the platform the library
  is built for. The callback loop is structural recursion over the finite list of events
  the engine reports, so no fuel is needed. The native engine is not in the repository:
  its scanning is the parameter \<open>eng_events\<close>, it is assumed to honour an abort at once
  and to return the aborting status (0 otherwise), its \<open>close\<close> to return 0 (the
  binding ignores that status), its \<open>open\<close> to return NULL or a
  fresh session, and any call with a pointer that is not an open session, or through a
  freed thunk, is undefined behaviour. Handlers are Python functions whose effects are a
  state and which return an \<^verbatim>\<open>int\<close>, another object, or raise
  (\<open>py_result\<close>); an exception inside a handler is swallowed by ctypes (as CPython's
  \<^verbatim>\<open>_ctypes\<close> callback code does) and the status the engine then reads is the
  engine parameter \<open>eng_unset\<close>, over which every theorem is universally quantified.
  The \<^verbatim>\<open>c_int\<close> conversion of an \<^verbatim>\<open>int\<close> result is modulo \<open>2^32\<close>.

  \<^bold>\<open>Not modelled.\<close> Loading the library (line 7); the text formatting of
  \<^verbatim>\<open>print\<close> in \<^verbatim>\<open>main()\<close>; the engine's pattern matching itself; threads (the
  binding is single-threaded by the spec's section 5); the lifetime of Python objects
  after their last reference goes away (the class defines no \<^verbatim>\<open>__del__\<close>, so
  nothing runs then, and no property here is about it); the reuse of a freed thunk's
  address by a later allocation (thunk identities come from a counter, and no property
  here depends on whether two registrations share an address).
\<close>

section \<open>Definitions spanning the components\<close>

text \<open>
  The typed event a raw engine event becomes when the binding handles it: the ctypes
  conversion of the arguments, then the classification and re-shaping of
  \<^verbatim>\<open>wrap_callback\<close>; \<open>None\<close> when a conversion fails or no flag bit matches.
\<close>

definition raw_event_of :: "raw_event \<Rightarrow> event option" where
  "raw_event_of r =
     (case callback_args r of
        Inl _ \<Rightarrow> None
      | Inr a \<Rightarrow> map_option (\<lambda>k. make_event k a) (code_kind (pa_flag a)))"

text \<open>ASCII text as the zero-free bytes a C string holds before its terminator.\<close>

definition ascii_bytes :: "string \<Rightarrow> bytes" where
  "ascii_bytes t = map (\<lambda>c. byte_of (of_char c)) t"

definition feature_event :: "string \<Rightarrow> string \<Rightarrow> raw_event" where
  "feature_event ft cx =
     \<lparr>ev_flag = 1, ev_arg = 0, ev_name = CMem (ascii_bytes ''email'' @ [0]),
      ev_pos = CMem (ascii_bytes ''0'' @ [0]),
      ev_feature = CMem (ascii_bytes ft @ [0]), ev_feature_len = of_nat (length ft),
      ev_context = CMem (ascii_bytes cx @ [0]), ev_context_len = of_nat (length cx)\<rparr>"

text \<open>
  The events on which \<^verbatim>\<open>main()\<close>'s handlers return normally: all but a carve
  event without data, where \<^verbatim>\<open>len(carved_data)\<close> raises (\<open>Demo.carve_callback\<close>).
\<close>

definition handled_normally :: "event \<Rightarrow> bool" where
  "handled_normally e = (case e of CarveEvent _ _ _ None \<Rightarrow> False | _ \<Rightarrow> True)"

section \<open>Properties spanning the components\<close>

subsection \<open>One callback\<close>

lemma raw_event_of_SomeE:
  assumes "raw_event_of r = Some e"
  obtains a where "callback_args r = Inr a"
    and "\<And>s. wrap_callback f h c a s = dispatch_event f h c e s"
proof -
  from assms obtain a k where a: "callback_args r = Inr a" and k: "code_kind (pa_flag a) = Some k"
    and e: "e = make_event k a"
    by (auto simp: raw_event_of_def split: sum.splits)
  have "\<And>s. wrap_callback f h c a s = dispatch_event f h c e s"
    using k e by (simp add: wrap_callback_refines)
  with a show ?thesis by (rule that)
qed

lemma demo_dispatch:
  "handled_normally e \<Longrightarrow>
   dispatch_event feature_callback histogram_callback carve_callback e out =
     (PyReturn 0, out @ [EventLine e])"
  by (cases e) (auto simp: handled_normally_def feature_callback_def histogram_callback_def
      carve_callback_def split: option.splits)

lemma thunk_call_demux:
  assumes "raw_event_of r = Some e" and "handled_normally e"
  shows "thunk_call (wrap_callback feature_callback histogram_callback carve_callback) v r out =
         Inr (0, out @ [EventLine e])"
proof -
  from assms(1) obtain a where a: "callback_args r = Inr a"
    and w: "\<And>s. wrap_callback feature_callback histogram_callback carve_callback a s =
                dispatch_event feature_callback histogram_callback carve_callback e s"
    using raw_event_of_SomeE[where f = feature_callback and h = histogram_callback
        and c = carve_callback] by blast
  from a show ?thesis by (simp add: thunk_call_Inr w demo_dispatch[OF assms(2)])
qed

subsection \<open>The demultiplexed event sequence\<close>

text \<open>
  C23. The adapter over a whole analysis: when the registration is live and every raw
  event the engine reports converts and carries a known flag, and none is a carve event
  without data, the handlers built by \<^verbatim>\<open>wrap_callback\<close> from \<^verbatim>\<open>main()\<close>'s
  three callbacks see exactly the typed events of the spec, one per raw event, in the
  engine's order, and the analysis returns 0.
\<close>

theorem deliver_demux_events:
  assumes "map raw_event_of rs = map Some evs" and "list_all handled_normally evs"
  shows "deliver (Some (wrap_callback feature_callback histogram_callback carve_callback)) u rs out =
         Inr (0, out @ map EventLine evs)"
  using assms
proof (induction rs arbitrary: evs out)
  case Nil
  then show ?case by simp
next
  case (Cons r rs)
  then obtain e evs' where evs: "evs = e # evs'" and e: "raw_event_of r = Some e"
    and rest: "map raw_event_of rs = map Some evs'"
    by (cases evs) auto
  from Cons.prems(2) evs have n: "handled_normally e" and ns: "list_all handled_normally evs'"
    by simp_all
  have "deliver (Some (wrap_callback feature_callback histogram_callback carve_callback)) u rs
          (out @ [EventLine e]) = Inr (0, (out @ [EventLine e]) @ map EventLine evs')"
    by (rule Cons.IH[OF rest ns])
  with thunk_call_demux[OF e n] evs show ?case by simp
qed

text \<open>
  C30. \<^verbatim>\<open>main()\<close>'s carve handler on a carve event whose data pointer is NULL:
  \<^verbatim>\<open>len(None)\<close> raises \<^verbatim>\<open>TypeError\<close> before anything is printed, ctypes
  swallows the exception, and the engine reads the unwritten result slot as the status.
  Whether the analysis continues with the next event or aborts with an arbitrary status
  depends on memory neither side wrote, where the spec (section 7) requires an integer
  status from every callback.
\<close>

theorem demo_carve_without_data:
  assumes "raw_event_of r = Some (CarveEvent n p fn None)"
  shows "deliver (Some (wrap_callback feature_callback histogram_callback carve_callback)) u
           (r # rs) out =
         (if u r = 0
          then deliver (Some (wrap_callback feature_callback histogram_callback carve_callback)) u
                 rs out
          else Inr (u r, out))"
proof -
  from assms obtain a where a: "callback_args r = Inr a"
    and w: "\<And>s. wrap_callback feature_callback histogram_callback carve_callback a s =
                dispatch_event feature_callback histogram_callback carve_callback
                  (CarveEvent n p fn None) s"
    using raw_event_of_SomeE[where f = feature_callback and h = histogram_callback
        and c = carve_callback] by blast
  have "wrap_callback feature_callback histogram_callback carve_callback a out = (PyRaise, out)"
    by (simp add: w carve_callback_def)
  with a deliver_Cons_Some[of r a "wrap_callback feature_callback histogram_callback carve_callback"
      out PyRaise out u rs]
  show ?thesis by simp
qed

subsection \<open>Witnesses\<close>

lemma deliver_demux_events_witness:
  "map raw_event_of [feature_event ''a'' ''b''] =
     map Some [FeatureEvent (Some (ascii_bytes ''email'')) (Some (ascii_bytes ''0''))
                 (Some (ascii_bytes ''a'')) (Some (ascii_bytes ''b''))] \<and>
   list_all handled_normally [FeatureEvent (Some (ascii_bytes ''email'')) (Some (ascii_bytes ''0''))
                 (Some (ascii_bytes ''a'')) (Some (ascii_bytes ''b''))] \<and>
   deliver (Some (wrap_callback feature_callback histogram_callback carve_callback)) (\<lambda>_. 3)
     [feature_event ''a'' ''b''] [] =
   Inr (0, [EventLine (FeatureEvent (Some (ascii_bytes ''email'')) (Some (ascii_bytes ''0''))
                 (Some (ascii_bytes ''a'')) (Some (ascii_bytes ''b'')))])"
proof -
  have m: "map raw_event_of [feature_event ''a'' ''b''] =
     map Some [FeatureEvent (Some (ascii_bytes ''email'')) (Some (ascii_bytes ''0''))
                 (Some (ascii_bytes ''a'')) (Some (ascii_bytes ''b''))]"
    by (simp add: raw_event_of_def feature_event_def ascii_bytes_def byte_of_def
        callback_args_def c_char_p_get_def code_kind_def make_event_def c_int_get_def flag_defs)
  have n: "list_all handled_normally [FeatureEvent (Some (ascii_bytes ''email''))
       (Some (ascii_bytes ''0'')) (Some (ascii_bytes ''a'')) (Some (ascii_bytes ''b''))]"
    by (simp add: handled_normally_def)
  show ?thesis using m n deliver_demux_events[OF m n, of "\<lambda>_. 3" "[]"] by simp
qed

text \<open>A carve event with a file name and a NULL data pointer.\<close>

lemma demo_carve_without_data_witness:
  "raw_event_of \<lparr>ev_flag = 4, ev_arg = 0, ev_name = CNull, ev_pos = CNull, ev_feature = CNull,
       ev_feature_len = 0, ev_context = CMem [65, 0], ev_context_len = 1\<rparr> =
     Some (CarveEvent None None (Some [65]) None) \<and>
   deliver (Some (wrap_callback feature_callback histogram_callback carve_callback)) (\<lambda>_. 7)
     [\<lparr>ev_flag = 4, ev_arg = 0, ev_name = CNull, ev_pos = CNull, ev_feature = CNull,
       ev_feature_len = 0, ev_context = CMem [65, 0], ev_context_len = 1\<rparr>,
      feature_event ''a'' ''b''] [] =
   Inr (7, [])"
proof -
  let ?r = "\<lparr>ev_flag = 4, ev_arg = 0, ev_name = CNull, ev_pos = CNull, ev_feature = CNull,
       ev_feature_len = 0, ev_context = CMem [65, 0], ev_context_len = 1\<rparr>"
  have r: "raw_event_of ?r = Some (CarveEvent None None (Some [65]) None)"
    by (simp add: raw_event_of_def callback_args_def c_char_p_get_def code_kind_def
        make_event_def c_int_get_def flag_defs)
  show ?thesis
    using r demo_carve_without_data[OF r, of "\<lambda>_. 7" "[feature_event ''a'' ''b'']" "[]"] by simp
qed

end
